theory Spec2Isabelle
  imports Complex_Main "HOL-Library.Char_ord" "HOL-Library.List_Lexorder"
begin

section \<open>The market predictor of \<^verbatim>\<open>ml_model.py\<close>\<close>

text \<open>
  The development embeds class \<^verbatim>\<open>MarketPredictor\<close> of \<^verbatim>\<open>src/ml_model.py\<close>.
  Conventions of the embedding:

  \<^item> Python floats are idealised as \<open>real\<close>; user identifiers are the integer keys the
    web application passes (\<^verbatim>\<open>current_user.id\<close>).
  \<^item> The JSON file \<^verbatim>\<open>market_data.json\<close> is modelled by what \<^verbatim>\<open>json.load\<close> gives back:
    a list of rows, or nothing when the file is missing or cannot be read or parsed. That
    is every file the program itself wrote. A file that holds other JSON is the subject
    of a subsection of its own, for the methods that use the loaded value outside a
    handler.
  \<^item> An exception is a value: a function that can raise returns \<open>exn + 'a\<close>, with
    \<open>Inl\<close> the exception. A handler of the source is a case distinction on that value.
  \<^item> The attributes of the predictor object and the file system form one record that
    every operation receives and returns updated.
  \<^item> scikit-learn is not part of the repository. Its entry points are the fields of the
    record \<open>sklearn\<close>, a parameter of every operation that calls them; each may raise.
  \<^item> \<^verbatim>\<open>datetime.now()\<close> is an input of the operation that reads the clock.
\<close>

subsection \<open>Exceptions\<close>

datatype exn =
    OSError string
  | OverflowError string
  | IndexError string
  | ValueError string
  | NotFittedError string
  | TypeError string
  | AttributeError string

text \<open>\<^verbatim>\<open>str(e)\<close>: the message an exception carries.\<close>

fun str :: "exn \<Rightarrow> string" where
  "str (OSError m) = m"
| "str (OverflowError m) = m"
| "str (IndexError m) = m"
| "str (ValueError m) = m"
| "str (NotFittedError m) = m"
| "str (TypeError m) = m"
| "str (AttributeError m) = m"

text \<open>Sequencing of two steps, the first of which may raise.\<close>

definition and_then :: "exn + 'a \<Rightarrow> ('a \<Rightarrow> exn + 'b) \<Rightarrow> exn + 'b" where
  "and_then r f = (case r of Inl e \<Rightarrow> Inl e | Inr x \<Rightarrow> f x)"

subsection \<open>Rows and the persisted store\<close>

text \<open>The dictionary \<^verbatim>\<open>new_row\<close> that \<^verbatim>\<open>add_user_data\<close> builds, with its seven keys.\<close>

record row =
  user_id :: int
  market_price :: real
  harvest_amount :: real
  total_cost :: real
  total_revenue :: real
  net_profit :: real
  timestamp :: string

text \<open>
  The data file: absent (\<^verbatim>\<open>os.path.exists\<close> is false), present but unreadable
  (\<^verbatim>\<open>open\<close> or \<^verbatim>\<open>json.load\<close> raises), or holding a list of rows.
\<close>

datatype store_file = Missing | Unreadable | Stored "row list"

subsection \<open>scikit-learn as a parameter\<close>

type_synonym vector = "real list"
type_synonym matrix = "real list list"

text \<open>
  What a \<^verbatim>\<open>StandardScaler\<close> and a \<^verbatim>\<open>LinearRegression\<close> object hold: nothing before the
  first fit, afterwards \<^verbatim>\<open>mean_\<close> and \<^verbatim>\<open>scale_\<close>, respectively \<^verbatim>\<open>coef_\<close> and
  \<^verbatim>\<open>intercept_\<close>.
\<close>

datatype scaler = Unfitted_scaler | Scaler vector vector
datatype regression = Unfitted_model | Regression vector real

text \<open>
  The library calls of the source. \<open>fit_transform\<close> and \<open>fit\<close> return the fitted object
  state; \<open>train_test_split\<close> is the call of the source with its fixed arguments
  \<^verbatim>\<open>test_size=0.2, random_state=42\<close> and returns
  \<^verbatim>\<open>(X_train, X_test, y_train, y_test)\<close>.
\<close>

record sklearn =
  fit_transform :: "matrix \<Rightarrow> exn + (scaler \<times> matrix)"
  transform :: "scaler \<Rightarrow> matrix \<Rightarrow> exn + matrix"
  train_test_split :: "matrix \<Rightarrow> vector \<Rightarrow> exn + (matrix \<times> matrix \<times> vector \<times> vector)"
  fit :: "matrix \<Rightarrow> vector \<Rightarrow> exn + regression"
  predict :: "regression \<Rightarrow> matrix \<Rightarrow> exn + vector"
  mean_squared_error :: "vector \<Rightarrow> vector \<Rightarrow> exn + real"
  r2_score :: "vector \<Rightarrow> vector \<Rightarrow> exn + real"

subsection \<open>The state: predictor object and file system\<close>

text \<open>
  The attributes \<^verbatim>\<open>__init__\<close> sets, together with the data file and whether the
  process may write it (\<^verbatim>\<open>open(self.data_file, 'w')\<close> raises \<^verbatim>\<open>OSError\<close> otherwise).
\<close>

record state =
  data_file :: store_file
  writable :: bool
  price_model :: regression
  profit_model :: regression
  price_scaler :: scaler
  profit_scaler :: scaler
  price_model_trained :: bool
  profit_model_trained :: bool

text \<open>\<^verbatim>\<open>MarketPredictor.__init__\<close>, over a given data file.\<close>

definition init :: "store_file \<Rightarrow> bool \<Rightarrow> state" where
  "init f w =
     \<lparr>data_file = f, writable = w,
      price_model = Unfitted_model, profit_model = Unfitted_model,
      price_scaler = Unfitted_scaler, profit_scaler = Unfitted_scaler,
      price_model_trained = False, profit_model_trained = False\<rparr>"

text \<open>
  \<^verbatim>\<open>load_data\<close>: the parsed list, and the empty list when the file does not exist or
  reading it raises (the bare \<^verbatim>\<open>except\<close> of the source).
\<close>

definition load_data :: "state \<Rightarrow> row list" where
  "load_data st =
     (case data_file st of
        Missing \<Rightarrow> []
      | Unreadable \<Rightarrow> []
      | Stored rows \<Rightarrow> rows)"

text \<open>
  \<^verbatim>\<open>save_data\<close>: overwrites the file with the given list. The source has no handler
  here, so the \<^verbatim>\<open>OSError\<close> of \<^verbatim>\<open>open\<close> propagates and the file is left as it was.
  Rows of the type above always serialise, and a failure in the middle of the write
  (a full disk) is left out.
\<close>

definition save_data :: "state \<Rightarrow> row list \<Rightarrow> exn + state" where
  "save_data st data =
     (if writable st then Inr (st\<lparr>data_file := Stored data\<rparr>)
      else Inl (OSError ''Permission denied''))"

subsection \<open>Training\<close>

text \<open>The feature rows and targets that the loop of \<^verbatim>\<open>_train_models\<close> collects.\<close>

definition price_features :: "row list \<Rightarrow> matrix" where
  "price_features data = map (\<lambda>item. [harvest_amount item, total_cost item]) data"

definition price_targets :: "row list \<Rightarrow> vector" where
  "price_targets data = map market_price data"

definition profit_features :: "row list \<Rightarrow> matrix" where
  "profit_features data =
     map (\<lambda>item. [market_price item, harvest_amount item, total_cost item]) data"

definition profit_targets :: "row list \<Rightarrow> vector" where
  "profit_targets data = map net_profit data"

text \<open>
  One training block of the source (scale, split, fit, evaluate), for one scaler and one
  model object. The result is the exception raised, if any, and the two objects as the
  block leaves them: the scaler is assigned by \<^verbatim>\<open>fit_transform\<close>, the model by
  \<^verbatim>\<open>fit\<close>, and a later call that raises does not undo them. A call that raises is
  taken to leave its own object as it was; what it leaves there is never read, since every
  use of a scaler or model is guarded by a flag that only a retrain that refitted both
  sets. The metrics are only printed.
\<close>

definition fit_block ::
  "sklearn \<Rightarrow> matrix \<Rightarrow> vector \<Rightarrow> scaler \<Rightarrow> regression \<Rightarrow> exn option \<times> scaler \<times> regression" where
  "fit_block sk X y sc m =
     (case fit_transform sk X of
        Inl e \<Rightarrow> (Some e, sc, m)
      | Inr (sc', X_scaled) \<Rightarrow>
          (case train_test_split sk X_scaled y of
             Inl e \<Rightarrow> (Some e, sc', m)
           | Inr (X_train, X_test, y_train, y_test) \<Rightarrow>
               (case fit sk X_train y_train of
                  Inl e \<Rightarrow> (Some e, sc', m)
                | Inr m' \<Rightarrow>
                    (case and_then (predict sk m' X_test) (\<lambda>y_pred.
                            and_then (mean_squared_error sk y_test y_pred) (\<lambda>mse.
                            r2_score sk y_test y_pred)) of
                       Inl e \<Rightarrow> (Some e, sc', m')
                     | Inr r2 \<Rightarrow> (None, sc', m')))))"

text \<open>
  The body of the \<^verbatim>\<open>try\<close> statement of \<^verbatim>\<open>_train_models\<close>: the price block, then the
  profit block, each under its own length test. It returns the exception that left the
  body, if any, and the state at that point.
\<close>

definition train_price :: "sklearn \<Rightarrow> row list \<Rightarrow> state \<Rightarrow> exn option \<times> state" where
  "train_price sk data st =
     (if length (price_features data) \<ge> 3 then
        (case fit_block sk (price_features data) (price_targets data)
                (price_scaler st) (price_model st) of
           (Some e, sc, m) \<Rightarrow> (Some e, st\<lparr>price_scaler := sc, price_model := m\<rparr>)
         | (None, sc, m) \<Rightarrow>
             (None, st\<lparr>price_scaler := sc, price_model := m, price_model_trained := True\<rparr>))
      else (None, st))"

definition train_profit :: "sklearn \<Rightarrow> row list \<Rightarrow> state \<Rightarrow> exn option \<times> state" where
  "train_profit sk data st =
     (if length (profit_features data) \<ge> 3 then
        (case fit_block sk (profit_features data) (profit_targets data)
                (profit_scaler st) (profit_model st) of
           (Some e, sc, m) \<Rightarrow> (Some e, st\<lparr>profit_scaler := sc, profit_model := m\<rparr>)
         | (None, sc, m) \<Rightarrow>
             (None, st\<lparr>profit_scaler := sc, profit_model := m, profit_model_trained := True\<rparr>))
      else (None, st))"

definition try_body :: "sklearn \<Rightarrow> row list \<Rightarrow> state \<Rightarrow> exn option \<times> state" where
  "try_body sk data st =
     (case train_price sk data st of
        (Some e, st1) \<Rightarrow> (Some e, st1)
      | (None, st1) \<Rightarrow> train_profit sk data st1)"

text \<open>
  \<^verbatim>\<open>_train_models\<close>: fewer than three rows clear both flags and return; otherwise the
  body runs, and the handler clears both flags when the body raised.
\<close>

definition train_models :: "sklearn \<Rightarrow> state \<Rightarrow> state" where
  "train_models sk st =
     (let data = load_data st in
      if length data < 3 then
        st\<lparr>price_model_trained := False, profit_model_trained := False\<rparr>
      else
        (case try_body sk data st of
           (Some e, st') \<Rightarrow> st'\<lparr>price_model_trained := False, profit_model_trained := False\<rparr>
         | (None, st') \<Rightarrow> st'))"

subsection \<open>Insertion and deletion\<close>

text \<open>
  \<^verbatim>\<open>add_user_data\<close>. \<open>now_iso\<close> is the value of \<^verbatim>\<open>datetime.now().isoformat()\<close> at the
  call. The result is the list the source returns and the new state, or the exception
  of \<^verbatim>\<open>save_data\<close>, which nothing in the method handles.
\<close>

definition add_user_data ::
  "sklearn \<Rightarrow> string \<Rightarrow> int \<Rightarrow> real \<Rightarrow> real \<Rightarrow> real \<Rightarrow> real \<Rightarrow> real \<Rightarrow> state
     \<Rightarrow> exn + (row list \<times> state)" where
  "add_user_data sk now_iso uid mp ha tc tr np st =
     (let data = load_data st;
          new_row = \<lparr>user_id = uid, market_price = mp, harvest_amount = ha,
                     total_cost = tc, total_revenue = tr, net_profit = np,
                     timestamp = now_iso\<rparr>;
          data = data @ [new_row]
      in and_then (save_data st data) (\<lambda>st1. Inr (data, train_models sk st1)))"

text \<open>\<^verbatim>\<open>clear_user_data\<close>: returns nothing, so the result is the new state alone.\<close>

definition clear_user_data :: "sklearn \<Rightarrow> int \<Rightarrow> state \<Rightarrow> exn + state" where
  "clear_user_data sk uid st =
     (let data = load_data st;
          data = filter (\<lambda>item. user_id item \<noteq> uid) data
      in and_then (save_data st data) (\<lambda>st1. Inr (train_models sk st1)))"

subsection \<open>Python arithmetic used by the forecasts\<close>

text \<open>\<^verbatim>\<open>np.mean\<close> of a list. Both callers pass a non-empty list.\<close>

definition mean :: "real list \<Rightarrow> real" where
  "mean xs = sum_list xs / of_nat (length xs)"

text \<open>Rounding to the nearest integer, ties to the even one, as \<^verbatim>\<open>round\<close> does.\<close>

definition rint :: "real \<Rightarrow> int" where
  "rint x =
     (let f = \<lfloor>x\<rfloor>; d = x - of_int f
      in if d < 1 / 2 then f
         else if 1 / 2 < d then f + 1
         else if even f then f else f + 1)"

text \<open>\<^verbatim>\<open>round(x, ndigits)\<close> for a non-negative number of digits.\<close>

definition py_round :: "real \<Rightarrow> nat \<Rightarrow> real" where
  "py_round x ndigits = of_int (rint (x * 10 ^ ndigits)) / 10 ^ ndigits"

text \<open>\<^verbatim>\<open>ys[0]\<close>: the first element, \<^verbatim>\<open>IndexError\<close> on an empty array.\<close>

definition first :: "'a list \<Rightarrow> exn + 'a" where
  "first ys = (case ys of [] \<Rightarrow> Inl (IndexError ''index 0 is out of bounds'') | y # _ \<Rightarrow> Inr y)"

subsection \<open>Dates\<close>

text \<open>
  A date is its proleptic Gregorian ordinal (\<^verbatim>\<open>date.toordinal()\<close>): day 1 is
  0001-01-01 and the last date \<^verbatim>\<open>datetime\<close> can hold, 9999-12-31, is day 3652059.
  \<^verbatim>\<open>strftime('%Y-%m-%d')\<close> prints the calendar date of an ordinal and drops the time of
  day; the model keeps the ordinal in its place.
\<close>

definition MAXORDINAL :: int where
  "MAXORDINAL = 3652059"

text \<open>\<^verbatim>\<open>timedelta(days=d)\<close>: refuses a magnitude above 999999999 days.\<close>

definition timedelta_days :: "int \<Rightarrow> exn + int" where
  "timedelta_days d =
     (if \<bar>d\<bar> \<le> 999999999 then Inr d
      else Inl (OverflowError ''days must have magnitude <= 999999999''))"

text \<open>\<^verbatim>\<open>current_date + delta\<close>: refuses a result outside the range of \<^verbatim>\<open>datetime\<close>.\<close>

definition add_days :: "int \<Rightarrow> int \<Rightarrow> exn + int" where
  "add_days today d =
     (if 1 \<le> today + d \<and> today + d \<le> MAXORDINAL then Inr (today + d)
      else Inl (OverflowError ''date value out of range''))"

subsection \<open>Forecasts\<close>

text \<open>
  \<^verbatim>\<open>data[-min(5, len(data)):]\<close>, the last five rows of the list as stored, or all of
  them when there are fewer.
\<close>

definition recent_data :: "row list \<Rightarrow> row list" where
  "recent_data data = drop (length data - min 5 (length data)) data"

text \<open>
  A \<^verbatim>\<open>for\<close> loop that appends one result per index and stops at the first
  iteration that raises.
\<close>

fun collect :: "(int \<Rightarrow> exn + 'a) \<Rightarrow> int list \<Rightarrow> exn + 'a list" where
  "collect f [] = Inr []"
| "collect f (i # rest) =
     (case f i of
        Inl e \<Rightarrow> Inl e
      | Inr x \<Rightarrow> (case collect f rest of Inl e \<Rightarrow> Inl e | Inr xs \<Rightarrow> Inr (x # xs)))"

record forecast =
  date :: int

record price_forecast = forecast +
  predicted_price :: real

record profit_forecast = forecast +
  predicted_profit :: real

text \<open>One iteration of the loop of \<^verbatim>\<open>predict_future_prices\<close>, for period \<open>i\<close>.\<close>

definition price_step :: "sklearn \<Rightarrow> int \<Rightarrow> row list \<Rightarrow> state \<Rightarrow> int \<Rightarrow> exn + price_forecast" where
  "price_step sk today recent st i =
     and_then (timedelta_days (i * 30)) (\<lambda>delta.
     and_then (add_days today delta) (\<lambda>future_date.
       let avg_harvest = mean (map harvest_amount recent);
           avg_cost = mean (map total_cost recent);
           features = [[avg_harvest, avg_cost]]
       in and_then (transform sk (price_scaler st) features) (\<lambda>features_scaled.
          and_then (predict sk (price_model st) features_scaled) (\<lambda>ys.
          and_then (first ys) (\<lambda>y.
            Inr \<lparr>date = future_date, predicted_price = py_round (max 0 y) 2\<rparr>)))))"

text \<open>
  The body of the \<^verbatim>\<open>try\<close> statement of \<^verbatim>\<open>predict_future_prices\<close>: its two
  \<^verbatim>\<open>return\<close>s, or the exception that leaves it. \<open>today\<close> is the ordinal of
  \<^verbatim>\<open>datetime.now()\<close>.
\<close>

definition prices_body ::
  "sklearn \<Rightarrow> int \<Rightarrow> int \<Rightarrow> state \<Rightarrow> exn + (price_forecast list option \<times> string option)" where
  "prices_body sk today periods st =
     (let data = load_data st in
      if length data = 0 then Inr (None, Some ''No data available for prediction.'')
      else
        and_then (collect (price_step sk today (recent_data data) st) [1..periods])
          (\<lambda>future_predictions. Inr (Some future_predictions, None)))"

definition predict_future_prices ::
  "sklearn \<Rightarrow> int \<Rightarrow> int \<Rightarrow> state \<Rightarrow> price_forecast list option \<times> string option" where
  "predict_future_prices sk today periods st =
     (if \<not> price_model_trained st then
        (None, Some ''Model not trained. Need at least 3 data points.'')
      else
        (case prices_body sk today periods st of
           Inl e \<Rightarrow> (None, Some (''Error generating price predictions: '' @ str e))
         | Inr r \<Rightarrow> r))"

text \<open>The same for \<^verbatim>\<open>predict_future_profits\<close>: three features and no clamp.\<close>

definition profit_step :: "sklearn \<Rightarrow> int \<Rightarrow> row list \<Rightarrow> state \<Rightarrow> int \<Rightarrow> exn + profit_forecast" where
  "profit_step sk today recent st i =
     and_then (timedelta_days (i * 30)) (\<lambda>delta.
     and_then (add_days today delta) (\<lambda>future_date.
       let avg_price = mean (map market_price recent);
           avg_harvest = mean (map harvest_amount recent);
           avg_cost = mean (map total_cost recent);
           features = [[avg_price, avg_harvest, avg_cost]]
       in and_then (transform sk (profit_scaler st) features) (\<lambda>features_scaled.
          and_then (predict sk (profit_model st) features_scaled) (\<lambda>ys.
          and_then (first ys) (\<lambda>y.
            Inr \<lparr>date = future_date, predicted_profit = py_round y 2\<rparr>)))))"

definition profits_body ::
  "sklearn \<Rightarrow> int \<Rightarrow> int \<Rightarrow> state \<Rightarrow> exn + (profit_forecast list option \<times> string option)" where
  "profits_body sk today periods st =
     (let data = load_data st in
      if length data = 0 then Inr (None, Some ''No data available for prediction.'')
      else
        and_then (collect (profit_step sk today (recent_data data) st) [1..periods])
          (\<lambda>future_predictions. Inr (Some future_predictions, None)))"

definition predict_future_profits ::
  "sklearn \<Rightarrow> int \<Rightarrow> int \<Rightarrow> state \<Rightarrow> profit_forecast list option \<times> string option" where
  "predict_future_profits sk today periods st =
     (if \<not> profit_model_trained st then
        (None, Some ''Model not trained. Need at least 3 data points.'')
      else
        (case profits_body sk today periods st of
           Inl e \<Rightarrow> (None, Some (''Error generating profit predictions: '' @ str e))
         | Inr r \<Rightarrow> r))"

subsection \<open>History\<close>

text \<open>\<^verbatim>\<open>xs[:limit]\<close>: a negative limit counts from the end.\<close>

definition slice_to :: "int \<Rightarrow> 'a list \<Rightarrow> 'a list" where
  "slice_to limit xs =
     (if 0 \<le> limit then take (nat limit) xs
      else take (length xs - nat (- limit)) xs)"

text \<open>
  \<^verbatim>\<open>sorted(data, key=..., reverse=True)\<close>: Python reverses the list, sorts it stably
  in ascending order and reverses the result, so rows with equal keys keep their order.
  Timestamps are strings, compared character by character.
\<close>

definition sorted_desc :: "row list \<Rightarrow> row list" where
  "sorted_desc data = rev (sort_key timestamp (rev data))"

text \<open>An entry of the chart: \<open>month\<close> is the number \<open>N\<close> of the label \<^verbatim>\<open>Month N\<close>.\<close>

record history_entry =
  month :: nat
  entry_market_price :: real
  entry_net_profit :: real

definition get_historical_data :: "int option \<Rightarrow> int \<Rightarrow> state \<Rightarrow> history_entry list" where
  "get_historical_data uid limit st =
     (let data = load_data st;
          data = (case uid of
                    None \<Rightarrow> data
                  | Some u \<Rightarrow> filter (\<lambda>item. user_id item = u) data)
      in if length data = 0 then []
         else
           map (\<lambda>(i, item). \<lparr>month = i + 1,
                               entry_market_price = market_price item,
                               entry_net_profit = net_profit item\<rparr>)
               (enumerate 0 (slice_to limit (sorted_desc data))))"

subsection \<open>Statistics\<close>

text \<open>
  The value of a key of \<^verbatim>\<open>model_performance\<close>: the two rounded metrics, or the
  message of the exception that the inner handler caught.
\<close>

datatype performance = Metrics real real | Metrics_error string

definition evaluate :: "sklearn \<Rightarrow> scaler \<Rightarrow> regression \<Rightarrow> matrix \<Rightarrow> vector \<Rightarrow> performance" where
  "evaluate sk sc m X y =
     (case and_then (transform sk sc X) (\<lambda>X_scaled.
           and_then (predict sk m X_scaled) (\<lambda>predictions.
           and_then (mean_squared_error sk y predictions) (\<lambda>mse.
           and_then (r2_score sk y predictions) (\<lambda>r2.
             Inr (Metrics (py_round mse 2) (py_round r2 3)))))) of
        Inl e \<Rightarrow> Metrics_error (str e)
      | Inr p \<Rightarrow> p)"

text \<open>
  The dictionary \<^verbatim>\<open>get_model_stats\<close> returns. Keys that only one of its shapes has are
  optional; \<open>model_performance\<close> holds the keys \<^verbatim>\<open>price_model\<close> and \<^verbatim>\<open>profit_model\<close>,
  each present only when its model is trained and at least three rows are selected.
\<close>

record stats =
  total_data_points :: nat
  model_trained :: bool
  message :: "string option"
  avg_market_price :: real
  avg_profit :: real
  total_users :: nat
  model_type :: string
  training_status :: string
  model_performance :: "(performance option \<times> performance option) option"
  date_range :: "(string \<times> string) option"

text \<open>The dictionary returned when no row is selected.\<close>

definition no_data_stats :: "int option \<Rightarrow> stats" where
  "no_data_stats uid =
     \<lparr>total_data_points = 0, model_trained = False,
      message = Some ''No data available'',
      avg_market_price = 0, avg_profit = 0,
      total_users = (if uid \<noteq> None then 1 else 0),
      model_type = ''LinearRegression'', training_status = ''Not trained'',
      model_performance = None, date_range = None\<rparr>"

text \<open>
  The dictionary that the body of the outer \<^verbatim>\<open>try\<close> of \<^verbatim>\<open>get_model_stats\<close> builds
  from a non-empty selection of rows. On rows of the type above, its statements that are
  not inside an inner handler (list comprehensions, \<^verbatim>\<open>sum\<close>, division by a positive
  length, \<^verbatim>\<open>min\<close> and \<^verbatim>\<open>max\<close> of strings) do not raise.
\<close>

definition stats_of :: "sklearn \<Rightarrow> state \<Rightarrow> row list \<Rightarrow> stats" where
  "stats_of sk st data =
     (let prices = map market_price data;
          profits = map net_profit data;
          user_ids = remdups (map user_id data);
          price_perf =
            (if price_model_trained st \<and> length data \<ge> 3 then
               Some (evaluate sk (price_scaler st) (price_model st)
                       (price_features data) prices)
             else None);
          profit_perf =
            (if profit_model_trained st \<and> length data \<ge> 3 then
               Some (evaluate sk (profit_scaler st) (profit_model st)
                       (profit_features data) profits)
             else None)
      in \<lparr>total_data_points = length data,
          model_trained = (price_model_trained st \<and> profit_model_trained st),
          message = None,
          avg_market_price =
            (if prices \<noteq> [] then py_round (sum_list prices / of_nat (length prices)) 2 else 0),
          avg_profit =
            (if profits \<noteq> [] then py_round (sum_list profits / of_nat (length profits)) 2 else 0),
          total_users = length user_ids,
          model_type = ''LinearRegression'',
          training_status =
            (if price_model_trained st \<and> profit_model_trained st then ''Trained''
             else ''Partially trained''),
          model_performance = Some (price_perf, profit_perf),
          date_range = Some (Min (set (map timestamp data)), Max (set (map timestamp data)))\<rparr>)"

text \<open>
  The dictionary that the outer handler returns: \<open>n\<close> is \<^verbatim>\<open>len(data)\<close> and \<open>e\<close> the
  exception caught.
\<close>

definition error_stats :: "int option \<Rightarrow> nat \<Rightarrow> exn \<Rightarrow> stats" where
  "error_stats uid n e =
     \<lparr>total_data_points = n, model_trained = False,
      message = Some (''Error calculating stats: '' @ str e),
      avg_market_price = 0, avg_profit = 0,
      total_users = (if uid \<noteq> None then 1 else 0),
      model_type = ''LinearRegression'', training_status = ''Error'',
      model_performance = None, date_range = None\<rparr>"

text \<open>
  \<^verbatim>\<open>get_model_stats\<close> on a store of rows, where the body of the outer \<^verbatim>\<open>try\<close> does
  not raise and the outer handler is not entered.
\<close>

definition get_model_stats :: "sklearn \<Rightarrow> int option \<Rightarrow> state \<Rightarrow> stats" where
  "get_model_stats sk uid st =
     (let data = load_data st;
          data = (case uid of
                    None \<Rightarrow> data
                  | Some u \<Rightarrow> filter (\<lambda>item. user_id item = u) data)
      in if length data = 0 then no_data_stats uid else stats_of sk st data)"

subsection \<open>The data file as \<^verbatim>\<open>json.load\<close> reads it\<close>

text \<open>
  A file that this program wrote holds a list of rows, and the definitions above read it
  as such. \<^verbatim>\<open>json.load\<close> itself returns whatever JSON the file holds, and
  \<^verbatim>\<open>add_user_data\<close>, \<^verbatim>\<open>clear_user_data\<close>, \<^verbatim>\<open>get_historical_data\<close> and
  \<^verbatim>\<open>get_model_stats\<close> use the loaded value outside any handler. This subsection models
  these four methods on the following loaded values:

  \<^item> an array whose elements are rows with the seven keys or values that are not
    objects; a value that is not an object is given by the message of the
    \<^verbatim>\<open>TypeError\<close> that subscripting it with a string raises;
  \<^item> a null, a boolean or a number, given by its Python type name;
  \<^item> an object or a string, given by its type name and the number of its keys or
    characters.

  Array elements that are objects without one of the seven keys, or with a value of
  another type under it, are left out.
\<close>

datatype element = Record row | Not_object string

datatype loaded = Scalar string | Keyed string nat | Array "element list"

datatype disk = No_file | Garbled | Parsed loaded

text \<open>\<^verbatim>\<open>load_data\<close>, lines 21 to 30, on these contents.\<close>

definition load_data_raw :: "disk \<Rightarrow> loaded" where
  "load_data_raw d =
     (case d of
        No_file \<Rightarrow> Array []
      | Garbled \<Rightarrow> Array []
      | Parsed v \<Rightarrow> v)"

text \<open>How a store of rows lies on the disk.\<close>

definition on_disk :: "store_file \<Rightarrow> disk" where
  "on_disk f =
     (case f of
        Missing \<Rightarrow> No_file
      | Unreadable \<Rightarrow> Garbled
      | Stored rows \<Rightarrow> Parsed (Array (map Record rows)))"

text \<open>The contents that the store of rows stands for.\<close>

definition well_formed :: "disk \<Rightarrow> bool" where
  "well_formed d =
     (case d of
        No_file \<Rightarrow> True
      | Garbled \<Rightarrow> True
      | Parsed (Array items) \<Rightarrow>
          list_all (\<lambda>x. case x of Record r \<Rightarrow> True | Not_object m \<Rightarrow> False) items
      | Parsed (Scalar tn) \<Rightarrow> False
      | Parsed (Keyed tn n) \<Rightarrow> False)"

text \<open>A type name between apostrophes, as Python's messages print it.\<close>

definition quoted :: "string \<Rightarrow> string" where
  "quoted tn = CHR 0x27 # tn @ [CHR 0x27]"

text \<open>The message of subscripting a string with a string (CPython 3.11 and later).\<close>

definition str_index_message :: string where
  "str_index_message = ''string indices must be integers, not '' @ quoted ''str''"

text \<open>\<^verbatim>\<open>len(data)\<close>.\<close>

definition py_len :: "loaded \<Rightarrow> exn + nat" where
  "py_len v =
     (case v of
        Scalar tn \<Rightarrow> Inl (TypeError (''object of type '' @ quoted tn @ '' has no len()''))
      | Keyed tn n \<Rightarrow> Inr n
      | Array items \<Rightarrow> Inr (length items))"

text \<open>
  \<^verbatim>\<open>for item in data\<close>: the elements of an array, the keys of an object or the
  characters of a string (strings, in both cases).
\<close>

definition py_iter :: "loaded \<Rightarrow> exn + element list" where
  "py_iter v =
     (case v of
        Scalar tn \<Rightarrow> Inl (TypeError (quoted tn @ '' object is not iterable''))
      | Keyed tn n \<Rightarrow> Inr (replicate n (Not_object str_index_message))
      | Array items \<Rightarrow> Inr items)"

text \<open>
  Evaluating \<^verbatim>\<open>item[key]\<close> for every item in turn, as a comprehension or the key
  function of \<^verbatim>\<open>sorted\<close> does: the first item that is not an object raises.
\<close>

fun rows_of :: "element list \<Rightarrow> exn + row list" where
  "rows_of [] = Inr []"
| "rows_of (Not_object m # items) = Inl (TypeError m)"
| "rows_of (Record r # items) =
     (case rows_of items of Inl e \<Rightarrow> Inl e | Inr rows \<Rightarrow> Inr (r # rows))"

text \<open>
  \<^verbatim>\<open>add_user_data\<close>, lines 39 to 57: \<^verbatim>\<open>append\<close> exists on lists only, then
  \<^verbatim>\<open>save_data\<close> as above, with \<open>w\<close> telling whether the file can be written. The
  result is the list returned and the new content of the file. The retrain that follows
  reads the list just written and does everything else inside its handler, so it does
  not raise; what it does to the attributes is \<open>train_models\<close> above.
\<close>

definition add_user_data_raw ::
  "string \<Rightarrow> int \<Rightarrow> real \<Rightarrow> real \<Rightarrow> real \<Rightarrow> real \<Rightarrow> real \<Rightarrow> bool \<Rightarrow> disk
     \<Rightarrow> exn + (element list \<times> disk)" where
  "add_user_data_raw now_iso uid mp ha tc tr np w d =
     (let new_row = \<lparr>user_id = uid, market_price = mp, harvest_amount = ha,
                     total_cost = tc, total_revenue = tr, net_profit = np,
                     timestamp = now_iso\<rparr>
      in case load_data_raw d of
           Scalar tn \<Rightarrow>
             Inl (AttributeError (quoted tn @ '' object has no attribute '' @ quoted ''append''))
         | Keyed tn n \<Rightarrow>
             Inl (AttributeError (quoted tn @ '' object has no attribute '' @ quoted ''append''))
         | Array items \<Rightarrow>
             (let data = items @ [Record new_row]
              in if w then Inr (data, Parsed (Array data))
                 else Inl (OSError ''Permission denied'')))"

text \<open>
  The comprehension \<^verbatim>\<open>[item for item in data if item['user_id'] ...]\<close> of lines 63,
  239 and 265, for a test \<open>keep\<close> on the user.
\<close>

definition select_rows :: "(int \<Rightarrow> bool) \<Rightarrow> loaded \<Rightarrow> exn + row list" where
  "select_rows keep data =
     and_then (py_iter data) (\<lambda>items.
     and_then (rows_of items) (\<lambda>rows.
       Inr (filter (\<lambda>item. keep (user_id item)) rows)))"

text \<open>\<^verbatim>\<open>clear_user_data\<close>, lines 61 to 67; the result is the new content of the file.\<close>

definition clear_user_data_raw :: "int \<Rightarrow> bool \<Rightarrow> disk \<Rightarrow> exn + disk" where
  "clear_user_data_raw uid w d =
     and_then (select_rows (\<lambda>u. u \<noteq> uid) (load_data_raw d)) (\<lambda>data.
       if w then Inr (Parsed (Array (map Record data)))
       else Inl (OSError ''Permission denied''))"

text \<open>
  The first lines of \<^verbatim>\<open>get_historical_data\<close> and \<^verbatim>\<open>get_model_stats\<close>: the loaded
  value, filtered when a user is given.
\<close>

definition selection :: "int option \<Rightarrow> disk \<Rightarrow> exn + loaded" where
  "selection uid d =
     (case uid of
        None \<Rightarrow> Inr (load_data_raw d)
      | Some u \<Rightarrow>
          and_then (select_rows (\<lambda>v. v = u) (load_data_raw d)) (\<lambda>rows.
            Inr (Array (map Record rows))))"

text \<open>
  \<^verbatim>\<open>get_historical_data\<close>, lines 235 to 257. \<^verbatim>\<open>sorted\<close> iterates over the value and
  calls the key function on every item before it compares; then all items are rows and
  the rest is as on a store of rows.
\<close>

definition get_historical_data_raw :: "int option \<Rightarrow> int \<Rightarrow> disk \<Rightarrow> exn + history_entry list" where
  "get_historical_data_raw uid limit d =
     and_then (selection uid d) (\<lambda>data.
     and_then (py_len data) (\<lambda>n.
       if n = 0 then Inr []
       else
         and_then (py_iter data) (\<lambda>items.
         and_then (rows_of items) (\<lambda>rows.
           Inr (map (\<lambda>(i, item). \<lparr>month = i + 1,
                                    entry_market_price = market_price item,
                                    entry_net_profit = net_profit item\<rparr>)
                    (enumerate 0 (slice_to limit (sorted_desc rows))))))))"

text \<open>
  \<^verbatim>\<open>get_model_stats\<close>, lines 261 to 359, with the attributes of \<open>st\<close>. The selection
  and \<^verbatim>\<open>len\<close> stand before the \<^verbatim>\<open>try\<close>; the body starts with a comprehension over
  the items, and the outer handler turns what it raises into a dictionary.
\<close>

definition get_model_stats_raw :: "sklearn \<Rightarrow> int option \<Rightarrow> disk \<Rightarrow> state \<Rightarrow> exn + stats" where
  "get_model_stats_raw sk uid d st =
     and_then (selection uid d) (\<lambda>data.
     and_then (py_len data) (\<lambda>n.
       if n = 0 then Inr (no_data_stats uid)
       else
         (case and_then (py_iter data) (\<lambda>items.
               and_then (rows_of items) (\<lambda>rows.
                 Inr (stats_of sk st rows))) of
            Inl e \<Rightarrow> Inr (error_stats uid n e)
          | Inr s \<Rightarrow> Inr s)))"

subsection \<open>Test doubles for scikit-learn\<close>

text \<open>
  Two instances of the library parameter on which the theorems below are exercised: one
  whose calls all succeed and whose fitted model predicts the constant \<open>c\<close>, and one
  whose \<open>fit\<close> raises.
\<close>

definition sk_constant :: "real \<Rightarrow> sklearn" where
  "sk_constant c =
     \<lparr>fit_transform = (\<lambda>X. Inr (Scaler [] [], X)),
      transform = (\<lambda>sc X. Inr X),
      train_test_split = (\<lambda>X y. Inr (X, X, y, y)),
      fit = (\<lambda>X y. Inr (Regression [] c)),
      predict = (\<lambda>m X. case m of
                   Unfitted_model \<Rightarrow> Inl (NotFittedError ''not fitted'')
                 | Regression coef b \<Rightarrow> Inr (map (\<lambda>x. b) X)),
      mean_squared_error = (\<lambda>y p. Inr 0),
      r2_score = (\<lambda>y p. Inr 1)\<rparr>"

definition sk_failing :: sklearn where
  "sk_failing = (sk_constant 0)\<lparr>fit := (\<lambda>X y. Inl (ValueError ''Input contains infinity''))\<rparr>"

text \<open>
  A third one whose fitted model depends on the training data: it predicts the mean of
  the targets it was fitted on.
\<close>

definition sk_mean :: sklearn where
  "sk_mean = (sk_constant 0)\<lparr>fit := (\<lambda>X y. Inr (Regression [] (mean y)))\<rparr>"

text \<open>Rows for the examples: user, price, harvest, cost, with the other fields fixed.\<close>

definition sample :: "int \<Rightarrow> real \<Rightarrow> real \<Rightarrow> real \<Rightarrow> string \<Rightarrow> row" where
  "sample u p h c t =
     \<lparr>user_id = u, market_price = p, harvest_amount = h, total_cost = c,
      total_revenue = p * h, net_profit = p * h - c, timestamp = t\<rparr>"

definition three_rows :: "row list" where
  "three_rows = [sample 1 5 10 100 ''2024-01-01T10:00:00'',
                 sample 1 6 20 200 ''2024-01-02T10:00:00'',
                 sample 2 7 30 300 ''2024-01-03T10:00:00'']"

section \<open>Lemmas\<close>

subsection \<open>Retraining: frame and flags\<close>

lemma train_price_frame:
  "data_file (snd (train_price sk data st)) = data_file st"
  "writable (snd (train_price sk data st)) = writable st"
  "profit_model_trained (snd (train_price sk data st)) = profit_model_trained st"
  by (auto simp: train_price_def split: if_splits prod.splits option.splits)

lemma train_profit_frame:
  "data_file (snd (train_profit sk data st)) = data_file st"
  "writable (snd (train_profit sk data st)) = writable st"
  "price_model_trained (snd (train_profit sk data st)) = price_model_trained st"
  by (auto simp: train_profit_def split: if_splits prod.splits option.splits)

lemma try_body_frame:
  "data_file (snd (try_body sk data st)) = data_file st"
  "writable (snd (try_body sk data st)) = writable st"
proof -
  obtain e st1 where p: "train_price sk data st = (e, st1)" by (cases "train_price sk data st")
  have "data_file st1 = data_file st" "writable st1 = writable st"
    using train_price_frame(1,2) [of sk data st] p by simp_all
  then show "data_file (snd (try_body sk data st)) = data_file st"
    "writable (snd (try_body sk data st)) = writable st"
    using p by (auto simp: try_body_def train_profit_frame split: option.splits)
qed

lemma train_models_data_file: "data_file (train_models sk st) = data_file st"
proof -
  obtain e st1 where p: "try_body sk (load_data st) st = (e, st1)"
    by (cases "try_body sk (load_data st) st")
  have "data_file st1 = data_file st"
    using try_body_frame(1) [of sk "load_data st" st] p by simp
  then show ?thesis
    using p by (auto simp: train_models_def Let_def split: option.splits)
qed

lemma train_models_writable: "writable (train_models sk st) = writable st"
proof -
  obtain e st1 where p: "try_body sk (load_data st) st = (e, st1)"
    by (cases "try_body sk (load_data st) st")
  have "writable st1 = writable st"
    using try_body_frame(2) [of sk "load_data st" st] p by simp
  then show ?thesis
    using p by (auto simp: train_models_def Let_def split: option.splits)
qed

lemma load_data_train_models: "load_data (train_models sk st) = load_data st"
  by (simp add: load_data_def train_models_data_file)

lemma train_price_flag:
  "train_price sk data st = (None, st') \<Longrightarrow> 3 \<le> length data \<Longrightarrow> price_model_trained st'"
  by (auto simp: train_price_def price_features_def split: if_splits prod.splits option.splits)

lemma train_profit_flag:
  "train_profit sk data st = (None, st') \<Longrightarrow> 3 \<le> length data \<Longrightarrow> profit_model_trained st'"
  by (auto simp: train_profit_def profit_features_def split: if_splits prod.splits option.splits)

lemma try_body_flags:
  assumes "try_body sk data st = (None, st')" "3 \<le> length data"
  shows "price_model_trained st' \<and> profit_model_trained st'"
proof -
  obtain e st1 where p: "train_price sk data st = (e, st1)" by (cases "train_price sk data st")
  with assms have e: "e = None" and q: "train_profit sk data st1 = (None, st')"
    by (auto simp: try_body_def split: option.splits)
  have "price_model_trained st1" using p e assms(2) train_price_flag by blast
  moreover have "price_model_trained st' = price_model_trained st1"
    using train_profit_frame(3) [of sk data st1] q by simp
  moreover have "profit_model_trained st'" using q assms(2) train_profit_flag by blast
  ultimately show ?thesis by simp
qed

lemma train_models_flags:
  "price_model_trained (train_models sk st) =
     (3 \<le> length (load_data st) \<and> fst (try_body sk (load_data st) st) = None)"
  "profit_model_trained (train_models sk st) =
     (3 \<le> length (load_data st) \<and> fst (try_body sk (load_data st) st) = None)"
  by (auto simp: train_models_def Let_def split: prod.splits option.splits dest: try_body_flags)

lemma train_models_trained:
  assumes "price_model_trained (train_models sk st)"
  shows "train_models sk st = snd (try_body sk (load_data st) st)"
proof -
  from assms have a: "3 \<le> length (load_data st)" "fst (try_body sk (load_data st) st) = None"
    by (simp_all add: train_models_flags)
  then show ?thesis
    by (cases "try_body sk (load_data st) st") (simp add: train_models_def Let_def)
qed

subsection \<open>The fitted objects do not depend on the previous ones\<close>

lemma fit_block_independent:
  "fst (fit_block sk X y sc m) = fst (fit_block sk X y sc' m')"
  "fst (fit_block sk X y sc m) = None \<Longrightarrow>
     snd (fit_block sk X y sc m) = snd (fit_block sk X y sc' m')"
  by (auto simp: fit_block_def split: sum.splits prod.splits)

lemma try_body_None_iff:
  assumes "3 \<le> length d"
  shows "fst (try_body sk d st) = None \<longleftrightarrow>
           fst (fit_block sk (price_features d) (price_targets d) Unfitted_scaler Unfitted_model) = None
         \<and> fst (fit_block sk (profit_features d) (profit_targets d) Unfitted_scaler Unfitted_model) = None"
proof -
  have p: "3 \<le> length (price_features d)" "3 \<le> length (profit_features d)"
    using assms by (simp_all add: price_features_def profit_features_def)
  obtain e1 s1 m1 where f1: "fit_block sk (price_features d) (price_targets d)
      (price_scaler st) (price_model st) = (e1, s1, m1)" by (metis prod_cases3)
  have e1: "fst (fit_block sk (price_features d) (price_targets d) Unfitted_scaler Unfitted_model) = e1"
    using fit_block_independent(1) [of sk "price_features d" "price_targets d"
        Unfitted_scaler Unfitted_model "price_scaler st" "price_model st"] f1 by simp
  obtain e2 s2 m2 where f2: "fit_block sk (profit_features d) (profit_targets d)
      (profit_scaler st) (profit_model st) = (e2, s2, m2)" by (metis prod_cases3)
  have e2: "fst (fit_block sk (profit_features d) (profit_targets d) Unfitted_scaler Unfitted_model) = e2"
    using fit_block_independent(1) [of sk "profit_features d" "profit_targets d"
        Unfitted_scaler Unfitted_model "profit_scaler st" "profit_model st"] f2 by simp
  show ?thesis
    unfolding e1 e2 using p f1 f2
    by (cases e1; cases e2) (simp_all add: try_body_def train_price_def train_profit_def)
qed

lemma try_body_fitted:
  assumes "3 \<le> length d" and "fst (try_body sk d st) = None"
  shows "price_scaler (snd (try_body sk d st))
           = fst (snd (fit_block sk (price_features d) (price_targets d) Unfitted_scaler Unfitted_model))"
    and "price_model (snd (try_body sk d st))
           = snd (snd (fit_block sk (price_features d) (price_targets d) Unfitted_scaler Unfitted_model))"
    and "profit_scaler (snd (try_body sk d st))
           = fst (snd (fit_block sk (profit_features d) (profit_targets d) Unfitted_scaler Unfitted_model))"
    and "profit_model (snd (try_body sk d st))
           = snd (snd (fit_block sk (profit_features d) (profit_targets d) Unfitted_scaler Unfitted_model))"
proof -
  have p: "3 \<le> length (price_features d)" "3 \<le> length (profit_features d)"
    using assms by (simp_all add: price_features_def profit_features_def)
  obtain e1 s1 m1 where f1: "fit_block sk (price_features d) (price_targets d)
      (price_scaler st) (price_model st) = (e1, s1, m1)" by (metis prod_cases3)
  obtain e2 s2 m2 where f2: "fit_block sk (profit_features d) (profit_targets d)
      (profit_scaler st) (profit_model st) = (e2, s2, m2)" by (metis prod_cases3)
  from assms(2) p f1 f2 have n: "e1 = None" "e2 = None"
    by (cases e1; cases e2; simp add: try_body_def train_price_def train_profit_def)+
  have g1: "snd (fit_block sk (price_features d) (price_targets d) Unfitted_scaler Unfitted_model)
              = (s1, m1)"
    using fit_block_independent(2) [of sk "price_features d" "price_targets d"
        "price_scaler st" "price_model st" Unfitted_scaler Unfitted_model] f1 n by simp
  have g2: "snd (fit_block sk (profit_features d) (profit_targets d) Unfitted_scaler Unfitted_model)
              = (s2, m2)"
    using fit_block_independent(2) [of sk "profit_features d" "profit_targets d"
        "profit_scaler st" "profit_model st" Unfitted_scaler Unfitted_model] f2 n by simp
  have t: "try_body sk d st
             = (None, st\<lparr>price_scaler := s1, price_model := m1, price_model_trained := True,
                         profit_scaler := s2, profit_model := m2, profit_model_trained := True\<rparr>)"
    using p f1 f2 n by (simp add: try_body_def train_price_def train_profit_def)
  show "price_scaler (snd (try_body sk d st))
           = fst (snd (fit_block sk (price_features d) (price_targets d) Unfitted_scaler Unfitted_model))"
    and "price_model (snd (try_body sk d st))
           = snd (snd (fit_block sk (price_features d) (price_targets d) Unfitted_scaler Unfitted_model))"
    and "profit_scaler (snd (try_body sk d st))
           = fst (snd (fit_block sk (profit_features d) (profit_targets d) Unfitted_scaler Unfitted_model))"
    and "profit_model (snd (try_body sk d st))
           = snd (snd (fit_block sk (profit_features d) (profit_targets d) Unfitted_scaler Unfitted_model))"
    unfolding t g1 g2 by simp_all
qed

lemma fit_block_None_chain:
  assumes "fst (fit_block sk X y sc m) = None"
  shows "\<exists>X_scaled X_train X_test y_train y_test.
           fit_transform sk X = Inr (fst (snd (fit_block sk X y sc m)), X_scaled)
         \<and> train_test_split sk X_scaled y = Inr (X_train, X_test, y_train, y_test)
         \<and> fit sk X_train y_train = Inr (snd (snd (fit_block sk X y sc m)))"
  using assms
  by (auto simp: fit_block_def split: sum.splits prod.splits)

lemma insertion_refits:
  assumes "add_user_data sk now_iso u mp ha tc tr np st = Inr (data, st')"
    and "price_model_trained st'"
  shows "data = load_data st @ [\<lparr>user_id = u, market_price = mp, harvest_amount = ha,
                                  total_cost = tc, total_revenue = tr, net_profit = np,
                                  timestamp = now_iso\<rparr>]"
    and "\<exists>X_scaled X_train X_test y_train y_test.
           fit_transform sk (price_features data) = Inr (price_scaler st', X_scaled)
         \<and> train_test_split sk X_scaled (price_targets data)
              = Inr (X_train, X_test, y_train, y_test)
         \<and> fit sk X_train y_train = Inr (price_model st')"
proof -
  from assms(1) have d: "data = load_data st @ [\<lparr>user_id = u, market_price = mp,
        harvest_amount = ha, total_cost = tc, total_revenue = tr, net_profit = np,
        timestamp = now_iso\<rparr>]"
    and st': "st' = train_models sk (st\<lparr>data_file := Stored data\<rparr>)"
    by (auto simp: add_user_data_def save_data_def and_then_def Let_def split: if_splits)
  show "data = load_data st @ [\<lparr>user_id = u, market_price = mp, harvest_amount = ha,
                                  total_cost = tc, total_revenue = tr, net_profit = np,
                                  timestamp = now_iso\<rparr>]" by (rule d)
  let ?s = "st\<lparr>data_file := Stored data\<rparr>"
  have l: "load_data ?s = data" by (simp add: load_data_def)
  from assms(2) have t: "price_model_trained (train_models sk ?s)" by (simp add: st')
  then have a: "3 \<le> length data" "fst (try_body sk data ?s) = None"
    by (simp_all add: train_models_flags l)
  have e: "st' = snd (try_body sk data ?s)"
    using train_models_trained [OF t] by (simp add: st' l)
  from a have n: "fst (fit_block sk (price_features data) (price_targets data)
      Unfitted_scaler Unfitted_model) = None"
    by (simp add: try_body_None_iff)
  show "\<exists>X_scaled X_train X_test y_train y_test.
           fit_transform sk (price_features data) = Inr (price_scaler st', X_scaled)
         \<and> train_test_split sk X_scaled (price_targets data)
              = Inr (X_train, X_test, y_train, y_test)
         \<and> fit sk X_train y_train = Inr (price_model st')"
    unfolding e try_body_fitted(1,2) [OF a] by (rule fit_block_None_chain [OF n])
qed

subsection \<open>Loops and single forecast steps\<close>

lemma collect_all_ok:
  "(\<And>i. i \<in> set js \<Longrightarrow> f i = Inr (g i)) \<Longrightarrow> collect f js = Inr (map g js)"
  by (induction js) simp_all

lemma collect_first_failure:
  "i \<in> set js \<Longrightarrow> f i = Inl e \<Longrightarrow>
   (\<And>j. j \<in> set js \<Longrightarrow> f j = Inl e \<or> (\<exists>x. f j = Inr x)) \<Longrightarrow> collect f js = Inl e"
proof (induction js)
  case Nil
  then show ?case by simp
next
  case (Cons j js)
  show ?case
  proof (cases "f j")
    case (Inl e')
    with Cons.prems(3) [of j] show ?thesis by auto
  next
    case (Inr x)
    with Cons.prems have "i \<in> set js" by auto
    then have "collect f js = Inl e"
      using Cons.IH Cons.prems(2,3) by auto
    with Inr show ?thesis by simp
  qed
qed

lemma collect_results:
  "collect f js = Inr xs \<Longrightarrow> length xs = length js \<and> (\<forall>x \<in> set xs. \<exists>i \<in> set js. f i = Inr x)"
proof (induction js arbitrary: xs)
  case Nil
  then show ?case by simp
next
  case (Cons j js)
  then show ?case by (auto split: sum.splits)
qed

lemma price_step_ok:
  assumes "transform sk (price_scaler st)
             [[mean (map harvest_amount recent), mean (map total_cost recent)]] = Inr Xs"
    and "predict sk (price_model st) Xs = Inr (y # ys)"
    and "1 \<le> today" "0 \<le> i" "today + i * 30 \<le> MAXORDINAL"
  shows "price_step sk today recent st i
           = Inr \<lparr>date = today + i * 30, predicted_price = py_round (max 0 y) 2\<rparr>"
  using assms
  by (simp add: price_step_def and_then_def timedelta_days_def add_days_def first_def Let_def
      MAXORDINAL_def)

lemma profit_step_ok:
  assumes "transform sk (profit_scaler st)
             [[mean (map market_price recent), mean (map harvest_amount recent),
               mean (map total_cost recent)]] = Inr Xs"
    and "predict sk (profit_model st) Xs = Inr (y # ys)"
    and "1 \<le> today" "0 \<le> i" "today + i * 30 \<le> MAXORDINAL"
  shows "profit_step sk today recent st i
           = Inr \<lparr>date = today + i * 30, predicted_profit = py_round y 2\<rparr>"
  using assms
  by (simp add: profit_step_def and_then_def timedelta_days_def add_days_def first_def Let_def
      MAXORDINAL_def)

lemma price_step_value:
  assumes "price_step sk today recent st i = Inr p"
  shows "\<exists>y. predicted_price p = py_round (max 0 y) 2"
  using assms
  by (auto simp: price_step_def and_then_def Let_def split: sum.splits)

lemma prices_all_periods:
  assumes "price_model_trained st" and "load_data st \<noteq> []"
    and "1 \<le> today" and "today + 30 * periods \<le> MAXORDINAL"
    and "transform sk (price_scaler st)
           [[mean (map harvest_amount (recent_data (load_data st))),
             mean (map total_cost (recent_data (load_data st)))]] = Inr Xs"
    and "predict sk (price_model st) Xs = Inr (y # ys)"
  shows "predict_future_prices sk today periods st
           = (Some (map (\<lambda>i. \<lparr>date = today + i * 30, predicted_price = py_round (max 0 y) 2\<rparr>)
                      [1..periods]), None)"
proof -
  have s: "price_step sk today (recent_data (load_data st)) st i
             = Inr \<lparr>date = today + i * 30, predicted_price = py_round (max 0 y) 2\<rparr>"
    if "i \<in> set [1..periods]" for i
    using price_step_ok [OF assms(5,6,3), of i] that assms(4) by simp
  have "collect (price_step sk today (recent_data (load_data st)) st) [1..periods]
          = Inr (map (\<lambda>i. \<lparr>date = today + i * 30, predicted_price = py_round (max 0 y) 2\<rparr>)
                   [1..periods])"
    by (rule collect_all_ok) (rule s)
  then show ?thesis
    using assms(1,2)
    by (simp add: predict_future_prices_def prices_body_def and_then_def Let_def)
qed

lemma profits_all_periods:
  assumes "profit_model_trained st" and "load_data st \<noteq> []"
    and "1 \<le> today" and "today + 30 * periods \<le> MAXORDINAL"
    and "transform sk (profit_scaler st)
           [[mean (map market_price (recent_data (load_data st))),
             mean (map harvest_amount (recent_data (load_data st))),
             mean (map total_cost (recent_data (load_data st)))]] = Inr Xs"
    and "predict sk (profit_model st) Xs = Inr (y # ys)"
  shows "predict_future_profits sk today periods st
           = (Some (map (\<lambda>i. \<lparr>date = today + i * 30, predicted_profit = py_round y 2\<rparr>)
                      [1..periods]), None)"
proof -
  have s: "profit_step sk today (recent_data (load_data st)) st i
             = Inr \<lparr>date = today + i * 30, predicted_profit = py_round y 2\<rparr>"
    if "i \<in> set [1..periods]" for i
    using profit_step_ok [OF assms(5,6,3), of i] that assms(4) by simp
  have "collect (profit_step sk today (recent_data (load_data st)) st) [1..periods]
          = Inr (map (\<lambda>i. \<lparr>date = today + i * 30, predicted_profit = py_round y 2\<rparr>)
                   [1..periods])"
    by (rule collect_all_ok) (rule s)
  then show ?thesis
    using assms(1,2)
    by (simp add: predict_future_profits_def profits_body_def and_then_def Let_def)
qed

lemma trained_forecast_differs:
  assumes "price_model_trained st"
  shows "predict_future_prices sk today periods st
           \<noteq> (None, Some ''Model not trained. Need at least 3 data points.'')"
  using assms
  by (auto simp: predict_future_prices_def prices_body_def and_then_def Let_def
      split: sum.splits)

lemma forecasts_differ:
  assumes "price_model_trained st" and "load_data st \<noteq> []"
    and "price_model_trained st'" and "load_data st' \<noteq> []"
    and "1 \<le> today" and "1 \<le> periods" and "today + 30 * periods \<le> MAXORDINAL"
    and "transform sk (price_scaler st)
           [[mean (map harvest_amount (recent_data (load_data st))),
             mean (map total_cost (recent_data (load_data st)))]] = Inr Xs"
    and "predict sk (price_model st) Xs = Inr (y # ys)"
    and "transform sk (price_scaler st')
           [[mean (map harvest_amount (recent_data (load_data st'))),
             mean (map total_cost (recent_data (load_data st')))]] = Inr Xs'"
    and "predict sk (price_model st') Xs' = Inr (y' # ys')"
    and "py_round (max 0 y) 2 \<noteq> py_round (max 0 y') 2"
  shows "predict_future_prices sk today periods st' \<noteq> predict_future_prices sk today periods st"
proof -
  have one: "[1..periods] = 1 # [2..periods]"
    using assms(6) by (simp add: upto_rec1)
  show ?thesis
    unfolding prices_all_periods [OF assms(1,2,5,7,8,9)]
      prices_all_periods [OF assms(3,4,5,7,10,11)] one
    using assms(12) by simp
qed

subsection \<open>Rounding\<close>

lemma rint_nonneg: "0 \<le> x \<Longrightarrow> 0 \<le> rint x"
proof -
  assume "0 \<le> x"
  then have "0 \<le> \<lfloor>x\<rfloor>" by simp
  then show ?thesis unfolding rint_def Let_def by auto
qed

lemma py_round_nonneg: "0 \<le> x \<Longrightarrow> 0 \<le> py_round x n"
proof -
  assume "0 \<le> x"
  then have "0 \<le> x * 10 ^ n" by simp
  then have "0 \<le> rint (x * 10 ^ n)" by (rule rint_nonneg)
  then show ?thesis by (simp add: py_round_def)
qed

lemma py_round_int: "py_round (of_int k) n = of_int k"
proof -
  have "(of_int k :: real) * 10 ^ n = of_int (k * 10 ^ n)" by simp
  then have "rint (of_int k * 10 ^ n) = k * 10 ^ n"
    unfolding rint_def Let_def by (simp only: floor_of_int) simp
  then show ?thesis by (simp add: py_round_def)
qed

subsection \<open>Forecasts read four columns of the store\<close>

lemma map_recent_data: "map f (recent_data d) = drop (length d - min 5 (length d)) (map f d)"
  by (simp add: recent_data_def drop_map)

lemma predict_future_prices_cong:
  assumes "price_model_trained s1 = price_model_trained s2"
    and "price_model_trained s1 \<Longrightarrow> price_scaler s1 = price_scaler s2 \<and> price_model s1 = price_model s2"
    and "map harvest_amount (load_data s1) = map harvest_amount (load_data s2)"
    and "map total_cost (load_data s1) = map total_cost (load_data s2)"
  shows "predict_future_prices sk today periods s1 = predict_future_prices sk today periods s2"
proof (cases "price_model_trained s1")
  case False
  with assms(1) show ?thesis by (simp add: predict_future_prices_def)
next
  case True
  with assms(2) have o: "price_scaler s1 = price_scaler s2" "price_model s1 = price_model s2"
    by simp_all
  from assms(3) have len: "length (load_data s1) = length (load_data s2)"
    by (rule map_eq_imp_length_eq)
  have h: "map harvest_amount (recent_data (load_data s1))
             = map harvest_amount (recent_data (load_data s2))"
    unfolding map_recent_data using assms(3) len by simp
  have c: "map total_cost (recent_data (load_data s1))
             = map total_cost (recent_data (load_data s2))"
    unfolding map_recent_data using assms(4) len by simp
  have "price_step sk today (recent_data (load_data s1)) s1
          = price_step sk today (recent_data (load_data s2)) s2"
    by (rule ext) (simp add: price_step_def h c o)
  moreover have "(load_data s1 = []) = (load_data s2 = [])"
    using len by (metis length_0_conv)
  ultimately have "prices_body sk today periods s1 = prices_body sk today periods s2"
    by (simp add: prices_body_def Let_def)
  then show ?thesis
    using assms(1) by (simp add: predict_future_prices_def)
qed

lemma predict_future_profits_cong:
  assumes "profit_model_trained s1 = profit_model_trained s2"
    and "profit_model_trained s1 \<Longrightarrow>
           profit_scaler s1 = profit_scaler s2 \<and> profit_model s1 = profit_model s2"
    and "map market_price (load_data s1) = map market_price (load_data s2)"
    and "map harvest_amount (load_data s1) = map harvest_amount (load_data s2)"
    and "map total_cost (load_data s1) = map total_cost (load_data s2)"
  shows "predict_future_profits sk today periods s1 = predict_future_profits sk today periods s2"
proof (cases "profit_model_trained s1")
  case False
  with assms(1) show ?thesis by (simp add: predict_future_profits_def)
next
  case True
  with assms(2) have o: "profit_scaler s1 = profit_scaler s2" "profit_model s1 = profit_model s2"
    by simp_all
  from assms(3) have len: "length (load_data s1) = length (load_data s2)"
    by (rule map_eq_imp_length_eq)
  have p: "map market_price (recent_data (load_data s1))
             = map market_price (recent_data (load_data s2))"
    unfolding map_recent_data using assms(3) len by simp
  have h: "map harvest_amount (recent_data (load_data s1))
             = map harvest_amount (recent_data (load_data s2))"
    unfolding map_recent_data using assms(4) len by simp
  have c: "map total_cost (recent_data (load_data s1))
             = map total_cost (recent_data (load_data s2))"
    unfolding map_recent_data using assms(5) len by simp
  have "profit_step sk today (recent_data (load_data s1)) s1
          = profit_step sk today (recent_data (load_data s2)) s2"
    by (rule ext) (simp add: profit_step_def p h c o)
  moreover have "(load_data s1 = []) = (load_data s2 = [])"
    using len by (metis length_0_conv)
  ultimately have "profits_body sk today periods s1 = profits_body sk today periods s2"
    by (simp add: profits_body_def Let_def)
  then show ?thesis
    using assms(1) by (simp add: predict_future_profits_def)
qed

lemma erased_columns:
  assumes "map (\<lambda>r. r\<lparr>user_id := 0\<rparr>) d1 = map (\<lambda>r. r\<lparr>user_id := 0\<rparr>) d2"
  shows "map market_price d1 = map market_price d2"
    and "map harvest_amount d1 = map harvest_amount d2"
    and "map total_cost d1 = map total_cost d2"
    and "map net_profit d1 = map net_profit d2"
    and "length d1 = length d2"
proof -
  have "map market_price (map (\<lambda>r. r\<lparr>user_id := 0\<rparr>) d1)
          = map market_price (map (\<lambda>r. r\<lparr>user_id := 0\<rparr>) d2)"
    using assms by simp
  then show "map market_price d1 = map market_price d2" by (simp add: comp_def)
  have "map harvest_amount (map (\<lambda>r. r\<lparr>user_id := 0\<rparr>) d1)
          = map harvest_amount (map (\<lambda>r. r\<lparr>user_id := 0\<rparr>) d2)"
    using assms by simp
  then show "map harvest_amount d1 = map harvest_amount d2" by (simp add: comp_def)
  have "map total_cost (map (\<lambda>r. r\<lparr>user_id := 0\<rparr>) d1)
          = map total_cost (map (\<lambda>r. r\<lparr>user_id := 0\<rparr>) d2)"
    using assms by simp
  then show "map total_cost d1 = map total_cost d2" by (simp add: comp_def)
  have "map net_profit (map (\<lambda>r. r\<lparr>user_id := 0\<rparr>) d1)
          = map net_profit (map (\<lambda>r. r\<lparr>user_id := 0\<rparr>) d2)"
    using assms by simp
  then show "map net_profit d1 = map net_profit d2" by (simp add: comp_def)
  show "length d1 = length d2" using assms by (rule map_eq_imp_length_eq)
qed

lemma erased_features:
  assumes "map (\<lambda>r. r\<lparr>user_id := 0\<rparr>) d1 = map (\<lambda>r. r\<lparr>user_id := 0\<rparr>) d2"
  shows "price_features d1 = price_features d2" and "price_targets d1 = price_targets d2"
    and "profit_features d1 = profit_features d2" and "profit_targets d1 = profit_targets d2"
proof -
  have "price_features (map (\<lambda>r. r\<lparr>user_id := 0\<rparr>) d1)
          = price_features (map (\<lambda>r. r\<lparr>user_id := 0\<rparr>) d2)"
    using assms by simp
  then show "price_features d1 = price_features d2"
    by (simp add: price_features_def comp_def)
  have "profit_features (map (\<lambda>r. r\<lparr>user_id := 0\<rparr>) d1)
          = profit_features (map (\<lambda>r. r\<lparr>user_id := 0\<rparr>) d2)"
    using assms by simp
  then show "profit_features d1 = profit_features d2"
    by (simp add: profit_features_def comp_def)
  show "price_targets d1 = price_targets d2" "profit_targets d1 = profit_targets d2"
    using erased_columns [OF assms] by (simp_all add: price_targets_def profit_targets_def)
qed

lemma retrain_ignores_users:
  assumes "map (\<lambda>r. r\<lparr>user_id := 0\<rparr>) (load_data s1) = map (\<lambda>r. r\<lparr>user_id := 0\<rparr>) (load_data s2)"
  shows "price_model_trained (train_models sk s1) = price_model_trained (train_models sk s2)"
    and "profit_model_trained (train_models sk s1) = profit_model_trained (train_models sk s2)"
    and "price_model_trained (train_models sk s1) \<Longrightarrow>
           price_scaler (train_models sk s1) = price_scaler (train_models sk s2)
           \<and> price_model (train_models sk s1) = price_model (train_models sk s2)
           \<and> profit_scaler (train_models sk s1) = profit_scaler (train_models sk s2)
           \<and> profit_model (train_models sk s1) = profit_model (train_models sk s2)"
proof -
  note f = erased_features [OF assms]
  have len: "length (load_data s1) = length (load_data s2)"
    using erased_columns(5) [OF assms] .
  have flags: "(3 \<le> length (load_data s1) \<and> fst (try_body sk (load_data s1) s1) = None)
       = (3 \<le> length (load_data s2) \<and> fst (try_body sk (load_data s2) s2) = None)"
  proof (cases "3 \<le> length (load_data s1)")
    case True
    with len have t2: "3 \<le> length (load_data s2)" by simp
    show ?thesis
      unfolding try_body_None_iff [OF True] try_body_None_iff [OF t2] f len by simp
  next
    case False
    with len show ?thesis by simp
  qed
  show a: "price_model_trained (train_models sk s1) = price_model_trained (train_models sk s2)"
    unfolding train_models_flags by (rule flags)
  show "profit_model_trained (train_models sk s1) = profit_model_trained (train_models sk s2)"
    unfolding train_models_flags by (rule flags)
  assume t1: "price_model_trained (train_models sk s1)"
  with a have t2: "price_model_trained (train_models sk s2)" by simp
  from t1 have b1: "3 \<le> length (load_data s1)" "fst (try_body sk (load_data s1) s1) = None"
    by (simp_all add: train_models_flags)
  from t2 have b2: "3 \<le> length (load_data s2)" "fst (try_body sk (load_data s2) s2) = None"
    by (simp_all add: train_models_flags)
  show "price_scaler (train_models sk s1) = price_scaler (train_models sk s2)
           \<and> price_model (train_models sk s1) = price_model (train_models sk s2)
           \<and> profit_scaler (train_models sk s1) = profit_scaler (train_models sk s2)
           \<and> profit_model (train_models sk s1) = profit_model (train_models sk s2)"
    unfolding train_models_trained [OF t1] train_models_trained [OF t2]
      try_body_fitted [OF b1] try_body_fitted [OF b2] f by simp
qed

subsection \<open>On a store of rows the four methods are the typed ones\<close>

lemma rows_of_records: "rows_of (map Record rows) = Inr rows"
  by (induction rows) simp_all

lemma load_data_raw_on_disk: "load_data_raw (on_disk (data_file st)) = Array (map Record (load_data st))"
  by (simp add: load_data_raw_def on_disk_def load_data_def split: store_file.splits)

lemma on_disk_Stored: "on_disk (Stored rows) = Parsed (Array (map Record rows))"
  by (simp add: on_disk_def)

lemma records_of_well_formed:
  "list_all (\<lambda>x. case x of Record r \<Rightarrow> True | Not_object m \<Rightarrow> False) items \<Longrightarrow>
   \<exists>rows. items = map Record rows"
proof (induction items)
  case Nil
  then show ?case by simp
next
  case (Cons x items)
  then obtain rows where r: "items = map Record rows" by auto
  from Cons.prems obtain r0 where "x = Record r0" by (cases x) simp_all
  with r have "x # items = map Record (r0 # rows)" by simp
  then show ?case by (rule exI)
qed

lemma well_formed_on_disk: "well_formed d \<Longrightarrow> \<exists>f. d = on_disk f"
proof (cases d)
  case No_file
  then have "d = on_disk Missing" by (simp add: on_disk_def)
  then show ?thesis by blast
next
  case Garbled
  then have "d = on_disk Unreadable" by (simp add: on_disk_def)
  then show ?thesis by blast
next
  case (Parsed v)
  assume w: "well_formed d"
  show ?thesis
  proof (cases v)
    case (Array items)
    with Parsed w obtain rows where "items = map Record rows"
      using records_of_well_formed by (auto simp: well_formed_def)
    with Parsed Array have "d = on_disk (Stored rows)" by (simp add: on_disk_def)
    then show ?thesis by blast
  qed (use Parsed w in \<open>simp_all add: well_formed_def\<close>)
qed

lemma select_rows_records:
  "select_rows keep (Array (map Record rows)) = Inr (filter (\<lambda>item. keep (user_id item)) rows)"
  by (simp add: select_rows_def py_iter_def and_then_def rows_of_records)

lemma selection_on_disk:
  "selection uid (on_disk (data_file st))
     = Inr (Array (map Record (case uid of None \<Rightarrow> load_data st
                                | Some u \<Rightarrow> filter (\<lambda>item. user_id item = u) (load_data st))))"
  by (cases uid) (simp_all add: selection_def load_data_raw_on_disk select_rows_records and_then_def)

lemma get_historical_data_refines:
  "get_historical_data_raw uid limit (on_disk (data_file st)) = Inr (get_historical_data uid limit st)"
  by (cases uid)
    (simp_all add: get_historical_data_raw_def get_historical_data_def selection_on_disk
      and_then_def py_len_def py_iter_def rows_of_records Let_def)

lemma get_model_stats_refines:
  "get_model_stats_raw sk uid (on_disk (data_file st)) st = Inr (get_model_stats sk uid st)"
  by (cases uid)
    (simp_all add: get_model_stats_raw_def get_model_stats_def selection_on_disk
      and_then_def py_len_def py_iter_def rows_of_records Let_def)

lemma clear_user_data_refines:
  "clear_user_data_raw u (writable st) (on_disk (data_file st))
     = (case clear_user_data sk u st of
          Inl e \<Rightarrow> Inl e
        | Inr st' \<Rightarrow> Inr (on_disk (data_file st')))"
  by (simp add: clear_user_data_raw_def clear_user_data_def load_data_raw_on_disk
      select_rows_records and_then_def save_data_def Let_def train_models_data_file
      on_disk_Stored)

lemma add_user_data_refines:
  "add_user_data_raw now_iso u mp ha tc tr np (writable st) (on_disk (data_file st))
     = (case add_user_data sk now_iso u mp ha tc tr np st of
          Inl e \<Rightarrow> Inl e
        | Inr (data, st') \<Rightarrow> Inr (map Record data, on_disk (data_file st')))"
  by (simp add: add_user_data_raw_def add_user_data_def load_data_raw_on_disk
      and_then_def save_data_def Let_def train_models_data_file on_disk_Stored)

lemma unwritable_raises:
  "\<exists>e. add_user_data_raw now_iso u mp ha tc tr np False d = Inl e"
  "\<exists>e. clear_user_data_raw u False d = Inl e"
  by (auto simp: add_user_data_raw_def clear_user_data_raw_def and_then_def Let_def
      split: loaded.splits sum.splits)

lemma stats_of_attributes:
  "stats_of sk (st\<lparr>data_file := f, writable := w\<rparr>) rows = stats_of sk st rows"
  by (simp add: stats_of_def Let_def cong: if_cong)

lemma well_formed_returns:
  assumes "well_formed d"
  shows "\<exists>h. get_historical_data_raw uid limit d = Inr h"
    and "\<exists>s. get_model_stats_raw sk uid d st = Inr s"
    and "\<exists>data d'. add_user_data_raw now_iso u mp ha tc tr np True d = Inr (data, d')"
    and "\<exists>d'. clear_user_data_raw u True d = Inr d'"
proof -
  from well_formed_on_disk [OF assms] obtain f where d: "d = on_disk f" by blast
  let ?st = "st\<lparr>data_file := f, writable := True\<rparr>"
  have f: "on_disk f = on_disk (data_file ?st)" by simp
  show "\<exists>h. get_historical_data_raw uid limit d = Inr h"
    unfolding d f get_historical_data_refines by blast
  have "get_model_stats_raw sk uid (on_disk (data_file ?st)) ?st = Inr (get_model_stats sk uid ?st)"
    by (rule get_model_stats_refines)
  moreover have "get_model_stats_raw sk uid (on_disk f) ?st = get_model_stats_raw sk uid (on_disk f) st"
    by (simp add: get_model_stats_raw_def stats_of_attributes cong: if_cong)
  ultimately show "\<exists>s. get_model_stats_raw sk uid d st = Inr s"
    unfolding d by simp
  have w: "writable ?st" by simp
  have "add_user_data_raw now_iso u mp ha tc tr np (writable ?st) (on_disk (data_file ?st))
     = (case add_user_data sk now_iso u mp ha tc tr np ?st of
          Inl e \<Rightarrow> Inl e
        | Inr (data, st') \<Rightarrow> Inr (map Record data, on_disk (data_file st')))"
    by (rule add_user_data_refines)
  moreover have "\<exists>r. add_user_data sk now_iso u mp ha tc tr np ?st = Inr r"
    by (simp add: add_user_data_def save_data_def and_then_def Let_def)
  ultimately show "\<exists>data d'. add_user_data_raw now_iso u mp ha tc tr np True d = Inr (data, d')"
    unfolding d by (auto split: prod.splits)
  have "clear_user_data_raw u (writable ?st) (on_disk (data_file ?st))
     = (case clear_user_data sk u ?st of
          Inl e \<Rightarrow> Inl e
        | Inr st' \<Rightarrow> Inr (on_disk (data_file st')))"
    by (rule clear_user_data_refines)
  moreover have "\<exists>r. clear_user_data sk u ?st = Inr r"
    by (simp add: clear_user_data_def save_data_def and_then_def Let_def)
  ultimately show "\<exists>d'. clear_user_data_raw u True d = Inr d'"
    unfolding d by auto
qed

subsection \<open>Evaluation on the test doubles\<close>

lemmas eval_defs = load_data_def save_data_def and_then_def train_models_def try_body_def
  train_price_def train_profit_def fit_block_def price_features_def price_targets_def
  profit_features_def profit_targets_def init_def sk_constant_def sk_failing_def
  three_rows_def sample_def Let_def

lemma trained_fixture:
  "train_models (sk_constant c) (init (Stored three_rows) True)
     = \<lparr>data_file = Stored three_rows, writable = True,
        price_model = Regression [] c, profit_model = Regression [] c,
        price_scaler = Scaler [] [], profit_scaler = Scaler [] [],
        price_model_trained = True, profit_model_trained = True\<rparr>"
  by (simp add: eval_defs)

lemma recent_three_rows: "recent_data three_rows = three_rows"
  by (simp add: recent_data_def three_rows_def)

lemma fixture_means:
  "mean (map harvest_amount three_rows) = 20"
  "mean (map total_cost three_rows) = 200"
  "mean (map market_price three_rows) = 6"
  by (simp_all add: mean_def three_rows_def sample_def)

lemma try_body_failing:
  "try_body sk_failing three_rows (init (Stored three_rows) True)
     = (Some (ValueError ''Input contains infinity''),
        (init (Stored three_rows) True)\<lparr>price_scaler := Scaler [] []\<rparr>)"
  by (simp add: eval_defs)

lemma negative_fixture_forecast:
  "predict_future_prices (sk_constant (-5)) 739924 2
     (train_models (sk_constant (-5)) (init (Stored three_rows) True))
   = (Some [\<lparr>date = 739954, predicted_price = 0\<rparr>,
            \<lparr>date = 739984, predicted_price = 0\<rparr>], None)"
proof -
  let ?st = "train_models (sk_constant (-5)) (init (Stored three_rows) True)"
  have l: "load_data ?st = three_rows"
    by (simp add: trained_fixture load_data_def)
  have e: "transform (sk_constant (-5)) (price_scaler ?st)
           [[mean (map harvest_amount (recent_data three_rows)),
             mean (map total_cost (recent_data three_rows))]] = Inr [[20, 200]]"
    unfolding recent_three_rows fixture_means by (simp add: sk_constant_def)
  have f: "predict (sk_constant (-5)) (price_model ?st) [[20, 200]] = Inr [-5]"
    unfolding trained_fixture by (simp add: sk_constant_def)
  have g: "py_round (max 0 (-5)) 2 = 0"
    using py_round_int [of 0 2] by simp
  have s: "price_step (sk_constant (-5)) 739924 (recent_data three_rows) ?st i
             = Inr \<lparr>date = 739924 + i * 30, predicted_price = py_round (max 0 (-5)) 2\<rparr>"
    if "i \<in> set [1..2]" for i
    using price_step_ok [OF e f, of 739924 i] that by (simp add: MAXORDINAL_def)
  have "collect (price_step (sk_constant (-5)) 739924 (recent_data three_rows) ?st) [1..2]
          = Inr (map (\<lambda>i. \<lparr>date = 739924 + i * 30,
                           predicted_price = py_round (max 0 (-5)) 2\<rparr>) [1..2])"
    by (rule collect_all_ok) (rule s)
  moreover have "[1..2] = [1, 2::int]" by code_simp
  moreover have "price_model_trained ?st" by (simp add: trained_fixture)
  moreover have "three_rows \<noteq> []" by (simp add: three_rows_def)
  ultimately show ?thesis
    unfolding g
    by (simp add: predict_future_prices_def prices_body_def and_then_def Let_def l)
qed

lemma fixture_price_step:
  assumes "1 \<le> i" and "i \<le> 100000"
  shows "price_step (sk_constant 5) 739924 three_rows
           (train_models (sk_constant 5) (init (Stored three_rows) True)) i
         = (if 739924 + i * 30 \<le> MAXORDINAL
            then Inr \<lparr>date = 739924 + i * 30, predicted_price = py_round (max 0 5) 2\<rparr>
            else Inl (OverflowError ''date value out of range''))"
  unfolding trained_fixture using assms
  by (simp add: price_step_def and_then_def timedelta_days_def add_days_def first_def Let_def
      sk_constant_def)

lemma mean_fixture_before:
  "train_models sk_mean (init (Stored three_rows) True)
     = \<lparr>data_file = Stored three_rows, writable = True,
        price_model = Regression [] 6, profit_model = Regression [] (- 220 / 3),
        price_scaler = Scaler [] [], profit_scaler = Scaler [] [],
        price_model_trained = True, profit_model_trained = True\<rparr>"
  by (simp add: eval_defs sk_mean_def mean_def)

lemma mean_fixture_after:
  "add_user_data sk_mean ''2024-01-04T10:00:00'' 3 10 40 400 400 0
     (train_models sk_mean (init (Stored three_rows) True))
   = Inr (three_rows @ [sample 3 10 40 400 ''2024-01-04T10:00:00''],
          \<lparr>data_file = Stored (three_rows @ [sample 3 10 40 400 ''2024-01-04T10:00:00'']),
           writable = True,
           price_model = Regression [] 7, profit_model = Regression [] (- 55),
           price_scaler = Scaler [] [], profit_scaler = Scaler [] [],
           price_model_trained = True, profit_model_trained = True\<rparr>)"
  unfolding mean_fixture_before
  by (simp add: add_user_data_def eval_defs sk_mean_def mean_def)

lemma fixture_history:
  "get_historical_data (Some 1) 3 (init (Stored three_rows) True)
     = [\<lparr>month = 1, entry_market_price = 6, entry_net_profit = - 80\<rparr>,
        \<lparr>month = 2, entry_market_price = 5, entry_net_profit = - 50\<rparr>]"
  by (simp add: get_historical_data_def load_data_def init_def three_rows_def sample_def
      Let_def slice_to_def sorted_desc_def enumerate_eq_zip)

section \<open>The claims\<close>

subsection \<open>What crosses the public boundary\<close>

text \<open>
  As stated, claim C1 fails. When the data file cannot be written, \<^verbatim>\<open>add_user_data\<close>
  and \<^verbatim>\<open>clear_user_data\<close> raise the \<^verbatim>\<open>OSError\<close> of \<^verbatim>\<open>save_data\<close>: neither
  method has a handler, and the routes that call them catch it. When the file holds JSON
  that is not a list of rows, the first use of the loaded value raises: \<^verbatim>\<open>append\<close> on
  \<^verbatim>\<open>{}\<close> in \<^verbatim>\<open>add_user_data\<close>, and the subscript \<^verbatim>\<open>item['user_id']\<close> on
  \<^verbatim>\<open>[1, 2]\<close> in the other three methods.
\<close>

theorem public_boundary_counterexample:
  "add_user_data (sk_constant 5) ''2024-02-01T09:30:00'' 2 8 40 400 320 (-80)
     (init (Stored three_rows) False) = Inl (OSError ''Permission denied'')
   \<and> clear_user_data (sk_constant 5) 1 (init (Stored three_rows) False)
       = Inl (OSError ''Permission denied'')
   \<and> add_user_data_raw ''2024-02-01T09:30:00'' 2 8 40 400 320 (-80) True
        (Parsed (Keyed ''dict'' 0))
       = Inl (AttributeError (quoted ''dict'' @ '' object has no attribute '' @ quoted ''append''))
   \<and> clear_user_data_raw 5 True
        (Parsed (Array [Not_object (quoted ''int'' @ '' object is not subscriptable''),
                        Not_object (quoted ''int'' @ '' object is not subscriptable'')]))
       = Inl (TypeError (quoted ''int'' @ '' object is not subscriptable''))
   \<and> get_historical_data_raw (Some 5) 3
        (Parsed (Array [Not_object (quoted ''int'' @ '' object is not subscriptable''),
                        Not_object (quoted ''int'' @ '' object is not subscriptable'')]))
       = Inl (TypeError (quoted ''int'' @ '' object is not subscriptable''))
   \<and> get_model_stats_raw (sk_constant 5) (Some 5)
        (Parsed (Array [Not_object (quoted ''int'' @ '' object is not subscriptable''),
                        Not_object (quoted ''int'' @ '' object is not subscriptable'')]))
        (init Missing True)
       = Inl (TypeError (quoted ''int'' @ '' object is not subscriptable''))"
  by (simp add: add_user_data_def clear_user_data_def save_data_def and_then_def init_def Let_def
      add_user_data_raw_def clear_user_data_raw_def get_historical_data_raw_def
      get_model_stats_raw_def selection_def select_rows_def py_iter_def load_data_raw_def)

text \<open>
  Claim C1, as the code has it. Both prediction calls always return a pair: a list with
  no error, or no list with a message. When the data file is missing, unreadable or a
  list of rows, \<^verbatim>\<open>get_historical_data\<close> and \<^verbatim>\<open>get_model_stats\<close> return a value, and
  \<^verbatim>\<open>add_user_data\<close> and \<^verbatim>\<open>clear_user_data\<close> return if the file can be written.
  When it cannot be written, the latter two raise, whatever the file holds. On such a
  file the four methods are the ones defined on a store of rows.
\<close>

theorem public_boundary:
  "((\<exists>ps. predict_future_prices sk today periods st = (Some ps, None))
      \<or> (\<exists>msg. predict_future_prices sk today periods st = (None, Some msg)))
   \<and> ((\<exists>qs. predict_future_profits sk today periods st = (Some qs, None))
      \<or> (\<exists>msg. predict_future_profits sk today periods st = (None, Some msg)))
   \<and> (well_formed d \<longrightarrow>
        (\<exists>h. get_historical_data_raw uid limit d = Inr h)
      \<and> (\<exists>s. get_model_stats_raw sk uid d st = Inr s)
      \<and> (\<exists>data d'. add_user_data_raw now_iso u mp ha tc tr np True d = Inr (data, d'))
      \<and> (\<exists>d'. clear_user_data_raw u True d = Inr d'))
   \<and> (\<exists>e. add_user_data_raw now_iso u mp ha tc tr np False d = Inl e)
   \<and> (\<exists>e. clear_user_data_raw u False d = Inl e)
   \<and> get_historical_data_raw uid limit (on_disk (data_file st))
       = Inr (get_historical_data uid limit st)
   \<and> get_model_stats_raw sk uid (on_disk (data_file st)) st = Inr (get_model_stats sk uid st)
   \<and> add_user_data_raw now_iso u mp ha tc tr np (writable st) (on_disk (data_file st))
       = (case add_user_data sk now_iso u mp ha tc tr np st of
            Inl e \<Rightarrow> Inl e
          | Inr (data, st') \<Rightarrow> Inr (map Record data, on_disk (data_file st')))
   \<and> clear_user_data_raw u (writable st) (on_disk (data_file st))
       = (case clear_user_data sk u st of
            Inl e \<Rightarrow> Inl e
          | Inr st' \<Rightarrow> Inr (on_disk (data_file st')))"
proof (intro conjI impI)
  show "(\<exists>ps. predict_future_prices sk today periods st = (Some ps, None))
      \<or> (\<exists>msg. predict_future_prices sk today periods st = (None, Some msg))"
    by (auto simp: predict_future_prices_def prices_body_def and_then_def Let_def
        split: sum.splits)
  show "(\<exists>qs. predict_future_profits sk today periods st = (Some qs, None))
      \<or> (\<exists>msg. predict_future_profits sk today periods st = (None, Some msg))"
    by (auto simp: predict_future_profits_def profits_body_def and_then_def Let_def
        split: sum.splits)
  show "\<exists>e. add_user_data_raw now_iso u mp ha tc tr np False d = Inl e"
    by (rule unwritable_raises)
  show "\<exists>e. clear_user_data_raw u False d = Inl e"
    by (rule unwritable_raises)
  show "get_historical_data_raw uid limit (on_disk (data_file st))
       = Inr (get_historical_data uid limit st)"
    by (rule get_historical_data_refines)
  show "get_model_stats_raw sk uid (on_disk (data_file st)) st = Inr (get_model_stats sk uid st)"
    by (rule get_model_stats_refines)
  show "add_user_data_raw now_iso u mp ha tc tr np (writable st) (on_disk (data_file st))
       = (case add_user_data sk now_iso u mp ha tc tr np st of
            Inl e \<Rightarrow> Inl e
          | Inr (data, st') \<Rightarrow> Inr (map Record data, on_disk (data_file st')))"
    by (rule add_user_data_refines)
  show "clear_user_data_raw u (writable st) (on_disk (data_file st))
       = (case clear_user_data sk u st of
            Inl e \<Rightarrow> Inl e
          | Inr st' \<Rightarrow> Inr (on_disk (data_file st')))"
    by (rule clear_user_data_refines)
next
  assume w: "well_formed d"
  show "\<exists>h. get_historical_data_raw uid limit d = Inr h"
    by (rule well_formed_returns(1) [OF w])
  show "\<exists>s. get_model_stats_raw sk uid d st = Inr s"
    by (rule well_formed_returns(2) [OF w])
  show "\<exists>data d'. add_user_data_raw now_iso u mp ha tc tr np True d = Inr (data, d')"
    by (rule well_formed_returns(3) [OF w])
  show "\<exists>d'. clear_user_data_raw u True d = Inr d'"
    by (rule well_formed_returns(4) [OF w])
qed

theorem public_boundary_witness:
  "well_formed (on_disk (Stored three_rows))
   \<and> (\<exists>s. get_model_stats_raw sk_failing (Some 1) (on_disk (Stored three_rows))
             (init (Stored three_rows) True) = Inr s)
   \<and> (\<exists>data d'. add_user_data_raw ''2024-02-01T09:30:00'' 2 8 40 400 320 (-80) True
                   (on_disk (Stored three_rows)) = Inr (data, d'))
   \<and> (\<exists>d'. clear_user_data_raw 2 True (on_disk (Stored three_rows)) = Inr d')
   \<and> (\<exists>e. add_user_data_raw ''2024-02-01T09:30:00'' 2 8 40 400 320 (-80) False
             (on_disk (Stored three_rows)) = Inl e)
   \<and> (\<exists>e. clear_user_data_raw 2 False (on_disk (Stored three_rows)) = Inl e)
   \<and> get_historical_data_raw (Some 1) 3 (on_disk (Stored three_rows))
       = Inr [\<lparr>month = 1, entry_market_price = 6, entry_net_profit = - 80\<rparr>,
              \<lparr>month = 2, entry_market_price = 5, entry_net_profit = - 50\<rparr>]"
proof -
  have w: "well_formed (on_disk (Stored three_rows))"
    by (simp add: well_formed_def on_disk_def three_rows_def)
  have f: "data_file (init (Stored three_rows) True) = Stored three_rows"
    by (simp add: init_def)
  show ?thesis
    using w
      public_boundary [of sk_failing 739924 3 "init (Stored three_rows) True"
        "on_disk (Stored three_rows)" "Some 1" 3 "''2024-02-01T09:30:00''" 2 8 40 400 320 "-80"]
    unfolding f fixture_history
    by simp
qed

subsection \<open>Fewer than three rows\<close>

text \<open>
  Claim C2. When the retrain sees a store of fewer than three rows, both flags are
  cleared, and from then on (whatever the file becomes, \<open>f\<close>) both prediction calls
  return no result and the message of the untrained model, for every number of periods
  and every clock reading. The same holds for the object as \<^verbatim>\<open>__init__\<close> leaves it.
\<close>

theorem small_store_untrained:
  assumes "length (load_data st) < 3"
  shows "\<not> price_model_trained (train_models sk st)
       \<and> \<not> profit_model_trained (train_models sk st)
       \<and> predict_future_prices sk' today periods ((train_models sk st)\<lparr>data_file := f\<rparr>)
           = (None, Some ''Model not trained. Need at least 3 data points.'')
       \<and> predict_future_profits sk' today periods ((train_models sk st)\<lparr>data_file := f\<rparr>)
           = (None, Some ''Model not trained. Need at least 3 data points.'')
       \<and> \<not> price_model_trained (init f w) \<and> \<not> profit_model_trained (init f w)
       \<and> predict_future_prices sk' today periods (init f w)
           = (None, Some ''Model not trained. Need at least 3 data points.'')
       \<and> predict_future_profits sk' today periods (init f w)
           = (None, Some ''Model not trained. Need at least 3 data points.'')"
  using assms
  by (simp add: train_models_flags predict_future_prices_def predict_future_profits_def init_def)

theorem small_store_untrained_witness:
  "length (load_data (init (Stored [sample 1 5 10 100 ''2024-01-01T10:00:00'',
                                    sample 1 6 20 200 ''2024-01-02T10:00:00'']) True)) < 3
   \<and> \<not> price_model_trained (train_models (sk_constant 5)
         (init (Stored [sample 1 5 10 100 ''2024-01-01T10:00:00'',
                        sample 1 6 20 200 ''2024-01-02T10:00:00'']) True))
   \<and> predict_future_prices (sk_constant 5) 739924 3
        ((train_models (sk_constant 5)
           (init (Stored [sample 1 5 10 100 ''2024-01-01T10:00:00'',
                          sample 1 6 20 200 ''2024-01-02T10:00:00'']) True))
         \<lparr>data_file := Stored three_rows\<rparr>)
       = (None, Some ''Model not trained. Need at least 3 data points.'')"
proof -
  have A: "length (load_data (init (Stored [sample 1 5 10 100 ''2024-01-01T10:00:00'',
                                    sample 1 6 20 200 ''2024-01-02T10:00:00'']) True)) < 3"
    by (simp add: load_data_def init_def)
  show ?thesis
    using A small_store_untrained [OF A, of "sk_constant 5" "sk_constant 5" 739924 3 "Stored three_rows"]
    by simp
qed

subsection \<open>A fit that raises\<close>

text \<open>
  Claim C3. When the body of the \<^verbatim>\<open>try\<close> statement of a retrain raises, both models
  are marked untrained afterwards, and the data file (hence the store read back) is what
  it was before the retrain.
\<close>

theorem fit_failure_untrains:
  assumes "3 \<le> length (load_data st)"
    and "fst (try_body sk (load_data st) st) = Some e"
  shows "\<not> price_model_trained (train_models sk st)
       \<and> \<not> profit_model_trained (train_models sk st)
       \<and> data_file (train_models sk st) = data_file st
       \<and> load_data (train_models sk st) = load_data st"
  using assms by (simp add: train_models_flags train_models_data_file load_data_train_models)

theorem fit_failure_untrains_witness:
  "3 \<le> length (load_data (init (Stored three_rows) True))
   \<and> fst (try_body sk_failing (load_data (init (Stored three_rows) True))
            (init (Stored three_rows) True)) = Some (ValueError ''Input contains infinity'')
   \<and> \<not> price_model_trained (train_models sk_failing (init (Stored three_rows) True))
   \<and> \<not> profit_model_trained (train_models sk_failing (init (Stored three_rows) True))
   \<and> data_file (train_models sk_failing (init (Stored three_rows) True)) = Stored three_rows"
proof -
  have L: "load_data (init (Stored three_rows) True) = three_rows"
    by (simp add: load_data_def init_def)
  have A: "3 \<le> length (load_data (init (Stored three_rows) True))"
    unfolding L by (simp add: three_rows_def)
  have B: "fst (try_body sk_failing (load_data (init (Stored three_rows) True))
            (init (Stored three_rows) True)) = Some (ValueError ''Input contains infinity'')"
    unfolding L try_body_failing by simp
  have C: "data_file (init (Stored three_rows) True) = Stored three_rows"
    by (simp add: init_def)
  show ?thesis using A B C fit_failure_untrains [OF A B] by simp
qed

subsection \<open>Deleting a user's rows\<close>

text \<open>
  Claim C4. Whenever \<^verbatim>\<open>clear_user_data(u)\<close> returns, the store is the previous store
  without the rows of \<open>u\<close>, in the same order; \<^verbatim>\<open>get_historical_data(u)\<close> is empty
  for every limit; and the rows of any other user \<open>v\<close> are the same list as before.
\<close>

theorem clear_user_data_exact:
  assumes "clear_user_data sk u st = Inr st'"
  shows "load_data st' = filter (\<lambda>item. user_id item \<noteq> u) (load_data st)
         \<and> get_historical_data (Some u) limit st' = []
         \<and> filter (\<lambda>item. user_id item = v) (load_data st')
             = (if v = u then [] else filter (\<lambda>item. user_id item = v) (load_data st))"
proof -
  from assms have w: "writable st"
    and st': "st' = train_models sk (st\<lparr>data_file := Stored (filter (\<lambda>item. user_id item \<noteq> u) (load_data st))\<rparr>)"
    by (auto simp: clear_user_data_def save_data_def and_then_def Let_def split: if_splits)
  have l: "load_data st' = filter (\<lambda>item. user_id item \<noteq> u) (load_data st)"
    unfolding st' load_data_train_models by (simp add: load_data_def)
  have h: "get_historical_data (Some u) limit st' = []"
    by (simp add: get_historical_data_def l Let_def)
  have f: "filter (\<lambda>item. user_id item = v) (load_data st')
             = (if v = u then [] else filter (\<lambda>item. user_id item = v) (load_data st))"
    unfolding l by (auto intro: filter_cong)
  from l h f show ?thesis by blast
qed

theorem clear_user_data_exact_witness:
  "clear_user_data (sk_constant 5) 1 (init (Stored three_rows) True)
     = Inr (init (Stored [sample 2 7 30 300 ''2024-01-03T10:00:00'']) True)
   \<and> load_data (init (Stored [sample 2 7 30 300 ''2024-01-03T10:00:00'']) True)
     = [sample 2 7 30 300 ''2024-01-03T10:00:00'']
   \<and> get_historical_data (Some 1) 3 (init (Stored [sample 2 7 30 300 ''2024-01-03T10:00:00'']) True) = []"
proof -
  have A: "clear_user_data (sk_constant 5) 1 (init (Stored three_rows) True)
     = Inr (init (Stored [sample 2 7 30 300 ''2024-01-03T10:00:00'']) True)"
    by (simp add: clear_user_data_def eval_defs)
  have B: "load_data (init (Stored [sample 2 7 30 300 ''2024-01-03T10:00:00'']) True)
     = [sample 2 7 30 300 ''2024-01-03T10:00:00'']"
    by (simp add: load_data_def init_def)
  show ?thesis using A B clear_user_data_exact [OF A, of 3 2] by simp
qed

subsection \<open>The trained flags as a state machine\<close>

text \<open>
  Claim C5. After a retrain each flag is set exactly when the store had at least three
  rows and the fitting raised nothing, whatever the flag was before. So a flag goes
  from unset to set only on a successful fit over at least three rows, goes from set to
  unset exactly when the retrain raises or sees fewer than three rows, and never stays
  set after a failed retrain.
\<close>

theorem trained_flag_state_machine:
  "price_model_trained (train_models sk st)
     = (3 \<le> length (load_data st) \<and> fst (try_body sk (load_data st) st) = None)
   \<and> profit_model_trained (train_models sk st)
     = (3 \<le> length (load_data st) \<and> fst (try_body sk (load_data st) st) = None)"
  by (simp add: train_models_flags)

theorem trained_flag_state_machine_witness:
  "price_model_trained (train_models (sk_constant 5) (init (Stored three_rows) True))
   \<and> profit_model_trained (train_models (sk_constant 5) (init (Stored three_rows) True))
   \<and> \<not> price_model_trained
         (train_models sk_failing (train_models (sk_constant 5) (init (Stored three_rows) True)))
   \<and> \<not> price_model_trained
         (train_models (sk_constant 5)
            ((train_models (sk_constant 5) (init (Stored three_rows) True))
               \<lparr>data_file := Stored []\<rparr>))"
proof -
  have A: "price_model_trained (train_models (sk_constant 5) (init (Stored three_rows) True))
   \<and> profit_model_trained (train_models (sk_constant 5) (init (Stored three_rows) True))"
    using trained_flag_state_machine [of "sk_constant 5" "init (Stored three_rows) True"]
    by (simp add: trained_fixture)
  have B: "\<not> price_model_trained
         (train_models sk_failing (train_models (sk_constant 5) (init (Stored three_rows) True)))"
    using trained_flag_state_machine [of sk_failing
        "train_models (sk_constant 5) (init (Stored three_rows) True)"]
    by (simp add: trained_fixture) (simp add: eval_defs)
  have C: "\<not> price_model_trained
         (train_models (sk_constant 5)
            ((train_models (sk_constant 5) (init (Stored three_rows) True))
               \<lparr>data_file := Stored []\<rparr>))"
    using trained_flag_state_machine [of "sk_constant 5"
        "(train_models (sk_constant 5) (init (Stored three_rows) True))\<lparr>data_file := Stored []\<rparr>"]
    by (simp add: load_data_def)
  from A B C show ?thesis by blast
qed

subsection \<open>The three-period price forecast\<close>

text \<open>
  Claim C6. In a trained state with a non-empty store, with fitted objects on which
  \<^verbatim>\<open>transform\<close> and \<^verbatim>\<open>predict\<close> succeed for the mean feature vector of the last
  up to five rows, and a clock at least 90 days before the last date, the call
  \<^verbatim>\<open>predict_future_prices(3)\<close> returns exactly three entries, dated 30, 60 and 90 days
  after the clock reading, all with the same price: the prediction for that one vector,
  clamped at zero and rounded to two places.
\<close>

theorem flat_three_period_forecast:
  assumes "price_model_trained st" and "load_data st \<noteq> []"
    and "1 \<le> today" and "today + 90 \<le> MAXORDINAL"
    and "transform sk (price_scaler st)
           [[mean (map harvest_amount (recent_data (load_data st))),
             mean (map total_cost (recent_data (load_data st)))]] = Inr Xs"
    and "predict sk (price_model st) Xs = Inr (y # ys)"
  shows "predict_future_prices sk today 3 st
           = (Some [\<lparr>date = today + 30, predicted_price = py_round (max 0 y) 2\<rparr>,
                    \<lparr>date = today + 60, predicted_price = py_round (max 0 y) 2\<rparr>,
                    \<lparr>date = today + 90, predicted_price = py_round (max 0 y) 2\<rparr>], None)"
proof -
  have s: "price_step sk today (recent_data (load_data st)) st i
             = Inr \<lparr>date = today + i * 30, predicted_price = py_round (max 0 y) 2\<rparr>"
    if "i \<in> set [1..3]" for i
    using price_step_ok [OF assms(5,6,3), of i] that assms(4) by simp
  have "collect (price_step sk today (recent_data (load_data st)) st) [1..3]
          = Inr (map (\<lambda>i. \<lparr>date = today + i * 30, predicted_price = py_round (max 0 y) 2\<rparr>) [1..3])"
    by (rule collect_all_ok) (rule s)
  moreover have "[1..3] = [1, 2, 3::int]"
    by code_simp
  ultimately show ?thesis
    using assms(1,2)
    by (simp add: predict_future_prices_def prices_body_def and_then_def Let_def)
qed

theorem flat_three_period_forecast_witness:
  "predict_future_prices (sk_constant 5) 739924 3
     (train_models (sk_constant 5) (init (Stored three_rows) True))
   = (Some [\<lparr>date = 739954, predicted_price = 5\<rparr>,
            \<lparr>date = 739984, predicted_price = 5\<rparr>,
            \<lparr>date = 740014, predicted_price = 5\<rparr>], None)"
proof -
  let ?st = "train_models (sk_constant 5) (init (Stored three_rows) True)"
  have l: "load_data ?st = three_rows"
    by (simp add: trained_fixture load_data_def)
  have a: "price_model_trained ?st" by (simp add: trained_fixture)
  have b: "load_data ?st \<noteq> []" unfolding l by (simp add: three_rows_def)
  have c: "(1::int) \<le> 739924" by simp
  have d: "(739924::int) + 90 \<le> MAXORDINAL" by (simp add: MAXORDINAL_def)
  have e: "transform (sk_constant 5) (price_scaler ?st)
           [[mean (map harvest_amount (recent_data (load_data ?st))),
             mean (map total_cost (recent_data (load_data ?st)))]] = Inr [[20, 200]]"
    unfolding l recent_three_rows fixture_means by (simp add: sk_constant_def)
  have f: "predict (sk_constant 5) (price_model ?st) [[20, 200]] = Inr [5]"
    unfolding trained_fixture by (simp add: sk_constant_def)
  have g: "py_round (max 0 5) 2 = 5"
    using py_round_int [of 5 2] by simp
  show ?thesis
    using flat_three_period_forecast [OF a b c d e f] g by simp
qed

subsection \<open>Price forecasts are clamped and rounded\<close>

text \<open>
  Claim C7. Every price that \<^verbatim>\<open>predict_future_prices\<close> returns is non-negative and
  a whole number of hundredths, for every library behaviour, store, clock and number of
  periods, in particular when the fitted model predicts a negative value.
\<close>

theorem price_forecast_nonnegative:
  assumes "predict_future_prices sk today periods st = (Some preds, None)"
  shows "\<forall>p \<in> set preds. 0 \<le> predicted_price p
           \<and> (\<exists>k::int. predicted_price p = of_int k / 100)"
proof
  fix p assume p: "p \<in> set preds"
  from assms have "collect (price_step sk today (recent_data (load_data st)) st) [1..periods]
      = Inr preds"
    by (auto simp: predict_future_prices_def prices_body_def and_then_def Let_def
        split: if_splits sum.splits)
  from collect_results [OF this] p obtain i
    where "price_step sk today (recent_data (load_data st)) st i = Inr p" by blast
  from price_step_value [OF this] obtain y
    where y: "predicted_price p = py_round (max 0 y) 2" by blast
  have "0 \<le> predicted_price p"
    unfolding y by (rule py_round_nonneg) simp
  moreover have "predicted_price p = of_int (rint (max 0 y * 10 ^ 2)) / 100"
    unfolding y by (simp add: py_round_def)
  ultimately show "0 \<le> predicted_price p \<and> (\<exists>k::int. predicted_price p = of_int k / 100)"
    by blast
qed

theorem price_forecast_nonnegative_witness:
  "predict_future_prices (sk_constant (-5)) 739924 2
     (train_models (sk_constant (-5)) (init (Stored three_rows) True))
   = (Some [\<lparr>date = 739954, predicted_price = 0\<rparr>,
            \<lparr>date = 739984, predicted_price = 0\<rparr>], None)
   \<and> (0::real) \<le> predicted_price \<lparr>date = 739954, predicted_price = 0\<rparr>
   \<and> (\<exists>k::int. predicted_price \<lparr>date = 739984, predicted_price = 0\<rparr> = of_int k / 100)"
  using negative_fixture_forecast price_forecast_nonnegative [OF negative_fixture_forecast]
  by simp

subsection \<open>Insertion round trip\<close>

text \<open>
  Claim C8. Whenever \<^verbatim>\<open>add_user_data\<close> returns, reading the store back gives the
  previous store (what \<^verbatim>\<open>load_data\<close> gave before the call) with exactly one row
  appended as its last element; the six fields of that row are the six arguments and
  its timestamp is the clock reading of the call. The list the method returns is that
  same store.
\<close>

theorem add_user_data_round_trip:
  assumes "add_user_data sk now_iso uid mp ha tc tr np st = Inr (data, st')"
  shows "load_data st' =
           load_data st @ [\<lparr>user_id = uid, market_price = mp, harvest_amount = ha,
                            total_cost = tc, total_revenue = tr, net_profit = np,
                            timestamp = now_iso\<rparr>]
         \<and> data = load_data st'"
  using assms
  by (auto simp: add_user_data_def save_data_def and_then_def Let_def load_data_train_models
      split: if_splits) (simp_all add: load_data_def)

theorem add_user_data_round_trip_witness:
  "add_user_data (sk_constant 5) ''2024-02-01T09:30:00'' 2 8 40 400 320 (-80) (init Missing True)
     = Inr ([\<lparr>user_id = 2, market_price = 8, harvest_amount = 40, total_cost = 400,
               total_revenue = 320, net_profit = -80, timestamp = ''2024-02-01T09:30:00''\<rparr>],
            init (Stored [\<lparr>user_id = 2, market_price = 8, harvest_amount = 40, total_cost = 400,
               total_revenue = 320, net_profit = -80, timestamp = ''2024-02-01T09:30:00''\<rparr>]) True)
   \<and> load_data (init (Stored [\<lparr>user_id = 2, market_price = 8, harvest_amount = 40,
               total_cost = 400, total_revenue = 320, net_profit = -80,
               timestamp = ''2024-02-01T09:30:00''\<rparr>]) True)
     = load_data (init Missing True) @
         [\<lparr>user_id = 2, market_price = 8, harvest_amount = 40, total_cost = 400,
           total_revenue = 320, net_profit = -80, timestamp = ''2024-02-01T09:30:00''\<rparr>]"
proof -
  have A: "add_user_data (sk_constant 5) ''2024-02-01T09:30:00'' 2 8 40 400 320 (-80) (init Missing True)
     = Inr ([\<lparr>user_id = 2, market_price = 8, harvest_amount = 40, total_cost = 400,
               total_revenue = 320, net_profit = -80, timestamp = ''2024-02-01T09:30:00''\<rparr>],
            init (Stored [\<lparr>user_id = 2, market_price = 8, harvest_amount = 40, total_cost = 400,
               total_revenue = 320, net_profit = -80, timestamp = ''2024-02-01T09:30:00''\<rparr>]) True)"
    by (simp add: add_user_data_def eval_defs)
  show ?thesis using A add_user_data_round_trip [OF A] by simp
qed

subsection \<open>One model for all users\<close>

text \<open>
  Claim C9. Training and forecasting never look at \<open>user_id\<close>: two stores that agree
  once every row's user is erased give, after a retrain, the same price and profit
  forecasts (the prediction calls themselves take no user). An insertion by whichever
  user that leaves the price model trained has refitted the scaler and the model on all
  rows of the store, the new one included. When the refitted model predicts another
  rounded price for the new mean features than the old one did for the old ones, every
  entry of the forecast carries the new price, so the forecast that any user is shown has
  changed. The same holds when the insertion takes the store from fewer than three rows
  to a trained model.
\<close>

theorem forecasts_shared_between_users:
  "(map (\<lambda>r. r\<lparr>user_id := 0\<rparr>) (load_data s1) = map (\<lambda>r. r\<lparr>user_id := 0\<rparr>) (load_data s2) \<longrightarrow>
      predict_future_prices sk today periods (train_models sk s1)
        = predict_future_prices sk today periods (train_models sk s2)
      \<and> predict_future_profits sk today periods (train_models sk s1)
        = predict_future_profits sk today periods (train_models sk s2))
   \<and> (add_user_data sk now_iso u mp ha tc tr np st = Inr (data, st')
        \<and> price_model_trained st' \<longrightarrow>
      data = load_data st @ [\<lparr>user_id = u, market_price = mp, harvest_amount = ha,
                               total_cost = tc, total_revenue = tr, net_profit = np,
                               timestamp = now_iso\<rparr>]
      \<and> (\<exists>X_scaled X_train X_test y_train y_test.
            fit_transform sk (price_features data) = Inr (price_scaler st', X_scaled)
          \<and> train_test_split sk X_scaled (price_targets data)
               = Inr (X_train, X_test, y_train, y_test)
          \<and> fit sk X_train y_train = Inr (price_model st')))
   \<and> (add_user_data sk now_iso u mp ha tc tr np st = Inr (data, st')
        \<and> price_model_trained st \<and> load_data st \<noteq> [] \<and> price_model_trained st'
        \<and> 1 \<le> today \<and> 1 \<le> periods \<and> today + 30 * periods \<le> MAXORDINAL
        \<and> transform sk (price_scaler st)
             [[mean (map harvest_amount (recent_data (load_data st))),
               mean (map total_cost (recent_data (load_data st)))]] = Inr Xs
        \<and> predict sk (price_model st) Xs = Inr (y # ys)
        \<and> transform sk (price_scaler st')
             [[mean (map harvest_amount (recent_data data)),
               mean (map total_cost (recent_data data))]] = Inr Xs'
        \<and> predict sk (price_model st') Xs' = Inr (y' # ys')
        \<and> py_round (max 0 y) 2 \<noteq> py_round (max 0 y') 2 \<longrightarrow>
      predict_future_prices sk today periods st'
        = (Some (map (\<lambda>i. \<lparr>date = today + i * 30, predicted_price = py_round (max 0 y') 2\<rparr>)
                   [1..periods]), None)
      \<and> predict_future_prices sk today periods st
        = (Some (map (\<lambda>i. \<lparr>date = today + i * 30, predicted_price = py_round (max 0 y) 2\<rparr>)
                   [1..periods]), None)
      \<and> predict_future_prices sk today periods st'
        \<noteq> predict_future_prices sk today periods st)
   \<and> (length (load_data st) < 3
        \<and> add_user_data sk now_iso u mp ha tc tr np st = Inr (data, st')
        \<and> price_model_trained st' \<longrightarrow>
      predict_future_prices sk today periods st'
        \<noteq> predict_future_prices sk today periods (train_models sk st))"
proof (intro conjI impI)
  assume e: "map (\<lambda>r. r\<lparr>user_id := 0\<rparr>) (load_data s1) = map (\<lambda>r. r\<lparr>user_id := 0\<rparr>) (load_data s2)"
  note c = erased_columns [OF e]
  note r = retrain_ignores_users [OF e, of sk]
  have t: "price_model_trained (train_models sk s1) \<Longrightarrow> profit_model_trained (train_models sk s1)"
    "profit_model_trained (train_models sk s1) \<Longrightarrow> price_model_trained (train_models sk s1)"
    by (simp_all add: train_models_flags)
  show "predict_future_prices sk today periods (train_models sk s1)
        = predict_future_prices sk today periods (train_models sk s2)"
    by (rule predict_future_prices_cong) (use r c in \<open>simp_all add: load_data_train_models\<close>)
  show "predict_future_profits sk today periods (train_models sk s1)
        = predict_future_profits sk today periods (train_models sk s2)"
    by (rule predict_future_profits_cong) (use r c t in \<open>simp_all add: load_data_train_models\<close>)
next
  assume a: "add_user_data sk now_iso u mp ha tc tr np st = Inr (data, st')
        \<and> price_model_trained st'"
  then have a1: "add_user_data sk now_iso u mp ha tc tr np st = Inr (data, st')"
    and a2: "price_model_trained st'" by simp_all
  show "data = load_data st @ [\<lparr>user_id = u, market_price = mp, harvest_amount = ha,
                               total_cost = tc, total_revenue = tr, net_profit = np,
                               timestamp = now_iso\<rparr>]"
    by (rule insertion_refits(1) [OF a1 a2])
  show "\<exists>X_scaled X_train X_test y_train y_test.
            fit_transform sk (price_features data) = Inr (price_scaler st', X_scaled)
          \<and> train_test_split sk X_scaled (price_targets data)
               = Inr (X_train, X_test, y_train, y_test)
          \<and> fit sk X_train y_train = Inr (price_model st')"
    by (rule insertion_refits(2) [OF a1 a2])
next
  assume h: "add_user_data sk now_iso u mp ha tc tr np st = Inr (data, st')
        \<and> price_model_trained st \<and> load_data st \<noteq> [] \<and> price_model_trained st'
        \<and> 1 \<le> today \<and> 1 \<le> periods \<and> today + 30 * periods \<le> MAXORDINAL
        \<and> transform sk (price_scaler st)
             [[mean (map harvest_amount (recent_data (load_data st))),
               mean (map total_cost (recent_data (load_data st)))]] = Inr Xs
        \<and> predict sk (price_model st) Xs = Inr (y # ys)
        \<and> transform sk (price_scaler st')
             [[mean (map harvest_amount (recent_data data)),
               mean (map total_cost (recent_data data))]] = Inr Xs'
        \<and> predict sk (price_model st') Xs' = Inr (y' # ys')
        \<and> py_round (max 0 y) 2 \<noteq> py_round (max 0 y') 2"
  then have a1: "add_user_data sk now_iso u mp ha tc tr np st = Inr (data, st')"
    and a2: "price_model_trained st'" by simp_all
  have l: "load_data st' = data"
    using a1
    by (auto simp: add_user_data_def save_data_def and_then_def Let_def load_data_train_models
        split: if_splits) (simp add: load_data_def)
  have n: "load_data st' \<noteq> []"
    unfolding l insertion_refits(1) [OF a1 a2] by simp
  from h have b: "price_model_trained st" "load_data st \<noteq> []" "1 \<le> today" "1 \<le> periods"
    "today + 30 * periods \<le> MAXORDINAL"
    "transform sk (price_scaler st)
             [[mean (map harvest_amount (recent_data (load_data st))),
               mean (map total_cost (recent_data (load_data st)))]] = Inr Xs"
    "predict sk (price_model st) Xs = Inr (y # ys)"
    "transform sk (price_scaler st')
             [[mean (map harvest_amount (recent_data (load_data st'))),
               mean (map total_cost (recent_data (load_data st')))]] = Inr Xs'"
    "predict sk (price_model st') Xs' = Inr (y' # ys')"
    "py_round (max 0 y) 2 \<noteq> py_round (max 0 y') 2"
    by (simp_all add: l)
  show "predict_future_prices sk today periods st'
        = (Some (map (\<lambda>i. \<lparr>date = today + i * 30, predicted_price = py_round (max 0 y') 2\<rparr>)
                   [1..periods]), None)"
    by (rule prices_all_periods [OF a2 n b(3,5,8,9)])
  show "predict_future_prices sk today periods st
        = (Some (map (\<lambda>i. \<lparr>date = today + i * 30, predicted_price = py_round (max 0 y) 2\<rparr>)
                   [1..periods]), None)"
    by (rule prices_all_periods [OF b(1,2,3,5,6,7)])
  show "predict_future_prices sk today periods st'
        \<noteq> predict_future_prices sk today periods st"
    by (rule forecasts_differ [OF b(1,2) a2 n b(3,4,5,6,7,8,9,10)])
next
  assume a: "length (load_data st) < 3
        \<and> add_user_data sk now_iso u mp ha tc tr np st = Inr (data, st')
        \<and> price_model_trained st'"
  then have "\<not> price_model_trained (train_models sk st)"
    by (simp add: train_models_flags)
  then have "predict_future_prices sk today periods (train_models sk st)
      = (None, Some ''Model not trained. Need at least 3 data points.'')"
    by (simp add: predict_future_prices_def)
  with trained_forecast_differs [of st' sk today periods] a
  show "predict_future_prices sk today periods st'
        \<noteq> predict_future_prices sk today periods (train_models sk st)"
    by simp
qed

theorem forecasts_shared_between_users_witness:
  "price_model (train_models sk_mean (init (Stored three_rows) True)) = Regression [] 6
   \<and> add_user_data sk_mean ''2024-01-04T10:00:00'' 3 10 40 400 400 0
        (train_models sk_mean (init (Stored three_rows) True))
     = Inr (three_rows @ [sample 3 10 40 400 ''2024-01-04T10:00:00''],
          \<lparr>data_file = Stored (three_rows @ [sample 3 10 40 400 ''2024-01-04T10:00:00'']),
           writable = True,
           price_model = Regression [] 7, profit_model = Regression [] (- 55),
           price_scaler = Scaler [] [], profit_scaler = Scaler [] [],
           price_model_trained = True, profit_model_trained = True\<rparr>)
   \<and> predict_future_prices sk_mean 739924 1 (train_models sk_mean (init (Stored three_rows) True))
     = (Some [\<lparr>date = 739954, predicted_price = 6\<rparr>], None)
   \<and> predict_future_prices sk_mean 739924 1
        \<lparr>data_file = Stored (three_rows @ [sample 3 10 40 400 ''2024-01-04T10:00:00'']),
         writable = True,
         price_model = Regression [] 7, profit_model = Regression [] (- 55),
         price_scaler = Scaler [] [], profit_scaler = Scaler [] [],
         price_model_trained = True, profit_model_trained = True\<rparr>
     = (Some [\<lparr>date = 739954, predicted_price = 7\<rparr>], None)
   \<and> predict_future_prices sk_mean 739924 1
        \<lparr>data_file = Stored (three_rows @ [sample 3 10 40 400 ''2024-01-04T10:00:00'']),
         writable = True,
         price_model = Regression [] 7, profit_model = Regression [] (- 55),
         price_scaler = Scaler [] [], profit_scaler = Scaler [] [],
         price_model_trained = True, profit_model_trained = True\<rparr>
     \<noteq> predict_future_prices sk_mean 739924 1
          (train_models sk_mean (init (Stored three_rows) True))"
proof -
  let ?st0 = "train_models sk_mean (init (Stored three_rows) True)"
  let ?rows = "three_rows @ [sample 3 10 40 400 ''2024-01-04T10:00:00'']"
  let ?st1 = "\<lparr>data_file = Stored ?rows, writable = True,
         price_model = Regression [] 7, profit_model = Regression [] (- 55),
         price_scaler = Scaler [] [], profit_scaler = Scaler [] [],
         price_model_trained = True, profit_model_trained = True\<rparr>"
  have m0: "price_model ?st0 = Regression [] 6" by (simp add: mean_fixture_before)
  have l0: "load_data ?st0 = three_rows" by (simp add: mean_fixture_before load_data_def)
  have a: "add_user_data sk_mean ''2024-01-04T10:00:00'' 3 10 40 400 400 0 ?st0
             = Inr (?rows, ?st1)" by (rule mean_fixture_after)
  have b: "price_model_trained ?st0" by (simp add: mean_fixture_before)
  have c: "load_data ?st0 \<noteq> []" unfolding l0 by (simp add: three_rows_def)
  have d: "price_model_trained ?st1" by simp
  have e: "(1::int) \<le> 739924" "(1::int) \<le> 1" "(739924::int) + 30 * 1 \<le> MAXORDINAL"
    by (simp_all add: MAXORDINAL_def)
  have f: "transform sk_mean (price_scaler ?st0)
             [[mean (map harvest_amount (recent_data (load_data ?st0))),
               mean (map total_cost (recent_data (load_data ?st0)))]] = Inr [[20, 200]]"
    unfolding l0 recent_three_rows fixture_means by (simp add: sk_mean_def sk_constant_def)
  have g: "predict sk_mean (price_model ?st0) [[20, 200]] = Inr [6]"
    unfolding m0 by (simp add: sk_mean_def sk_constant_def)
  have r: "recent_data ?rows = ?rows" by (simp add: recent_data_def three_rows_def)
  have h: "transform sk_mean (price_scaler ?st1)
             [[mean (map harvest_amount (recent_data ?rows)),
               mean (map total_cost (recent_data ?rows))]] = Inr [[25, 250]]"
    unfolding r by (simp add: sk_mean_def sk_constant_def mean_def three_rows_def sample_def)
  have i: "predict sk_mean (price_model ?st1) [[25, 250]] = Inr [7]"
    by (simp add: sk_mean_def sk_constant_def)
  have j: "py_round (max 0 6) 2 = 6" "py_round (max 0 7) 2 = 7"
    using py_round_int [of 6 2] py_round_int [of 7 2] by simp_all
  then have k: "py_round (max 0 6) 2 \<noteq> py_round (max 0 7) 2" by simp
  have u: "[1..1] = [1::int]" by code_simp
  note T = forecasts_shared_between_users [
      where sk = sk_mean and now_iso = "''2024-01-04T10:00:00''" and u = 3 and mp = 10
        and ha = 40 and tc = 400 and tr = 400 and np = 0 and st = ?st0 and data = ?rows
        and st' = ?st1 and today = 739924 and periods = 1 and Xs = "[[20, 200]]"
        and y = 6 and ys = "[]" and Xs' = "[[25, 250]]" and y' = 7 and ys' = "[]",
      THEN conjunct2, THEN conjunct2, THEN conjunct1]
  from T a b c d e f g h i k
  have "predict_future_prices sk_mean 739924 1 ?st1
        = (Some (map (\<lambda>i. \<lparr>date = 739924 + i * 30, predicted_price = py_round (max 0 7) 2\<rparr>)
                   [1..1]), None)
      \<and> predict_future_prices sk_mean 739924 1 ?st0
        = (Some (map (\<lambda>i. \<lparr>date = 739924 + i * 30, predicted_price = py_round (max 0 6) 2\<rparr>)
                   [1..1]), None)
      \<and> predict_future_prices sk_mean 739924 1 ?st1
        \<noteq> predict_future_prices sk_mean 739924 1 ?st0"
    by blast
  then show ?thesis
    unfolding j u using m0 a by simp
qed

subsection \<open>The number of forecast entries\<close>

text \<open>
  Claim C10, as the code has it. In a trained state with a non-empty store and fitted
  objects on which \<^verbatim>\<open>transform\<close> and \<^verbatim>\<open>predict\<close> succeed for the mean feature
  vector, for every \<open>periods \<ge> 0\<close> whose last date, \<open>30 * periods\<close> days after the
  clock reading, is not after 9999-12-31, both prediction calls return a list of exactly
  \<open>periods\<close> entries and no error; for \<open>periods = 0\<close> that is the empty list.
\<close>

theorem forecast_length_within_calendar:
  assumes "price_model_trained st" and "profit_model_trained st" and "load_data st \<noteq> []"
    and "0 \<le> periods" and "1 \<le> today" and "today + 30 * periods \<le> MAXORDINAL"
    and "transform sk (price_scaler st)
           [[mean (map harvest_amount (recent_data (load_data st))),
             mean (map total_cost (recent_data (load_data st)))]] = Inr Xs"
    and "predict sk (price_model st) Xs = Inr (y # ys)"
    and "transform sk (profit_scaler st)
           [[mean (map market_price (recent_data (load_data st))),
             mean (map harvest_amount (recent_data (load_data st))),
             mean (map total_cost (recent_data (load_data st)))]] = Inr Xs'"
    and "predict sk (profit_model st) Xs' = Inr (y' # ys')"
  shows "\<exists>ps qs. predict_future_prices sk today periods st = (Some ps, None)
           \<and> length ps = nat periods
           \<and> predict_future_profits sk today periods st = (Some qs, None)
           \<and> length qs = nat periods"
  using prices_all_periods [OF assms(1,3,5,6,7,8)] profits_all_periods [OF assms(2,3,5,6,9,10)]
    assms(4)
  by simp

theorem forecast_length_within_calendar_witness:
  "predict_future_prices (sk_constant 5) 739924 0
     (train_models (sk_constant 5) (init (Stored three_rows) True)) = (Some [], None)
   \<and> predict_future_profits (sk_constant 5) 739924 0
     (train_models (sk_constant 5) (init (Stored three_rows) True)) = (Some [], None)"
proof -
  let ?st = "train_models (sk_constant 5) (init (Stored three_rows) True)"
  have l: "load_data ?st = three_rows"
    by (simp add: trained_fixture load_data_def)
  have a: "price_model_trained ?st" by (simp add: trained_fixture)
  have b: "profit_model_trained ?st" by (simp add: trained_fixture)
  have c: "load_data ?st \<noteq> []" unfolding l by (simp add: three_rows_def)
  have d: "(0::int) \<le> 0" by simp
  have e: "(1::int) \<le> 739924" by simp
  have f: "(739924::int) + 30 * 0 \<le> MAXORDINAL" by (simp add: MAXORDINAL_def)
  have g: "transform (sk_constant 5) (price_scaler ?st)
           [[mean (map harvest_amount (recent_data (load_data ?st))),
             mean (map total_cost (recent_data (load_data ?st)))]] = Inr [[20, 200]]"
    unfolding l recent_three_rows fixture_means by (simp add: sk_constant_def)
  have h: "predict (sk_constant 5) (price_model ?st) [[20, 200]] = Inr [5]"
    unfolding trained_fixture by (simp add: sk_constant_def)
  have i: "transform (sk_constant 5) (profit_scaler ?st)
           [[mean (map market_price (recent_data (load_data ?st))),
             mean (map harvest_amount (recent_data (load_data ?st))),
             mean (map total_cost (recent_data (load_data ?st)))]] = Inr [[6, 20, 200]]"
    unfolding l recent_three_rows fixture_means by (simp add: sk_constant_def)
  have j: "predict (sk_constant 5) (profit_model ?st) [[6, 20, 200]] = Inr [5]"
    unfolding trained_fixture by (simp add: sk_constant_def)
  show ?thesis
    using forecast_length_within_calendar [OF a b c d e f g h i j] by auto
qed

text \<open>
  Beyond the calendar the claim fails: on 2026-11-04 (ordinal 739924) a request for
  100000 periods reaches a date that \<^verbatim>\<open>datetime\<close> cannot hold, the addition raises
  \<^verbatim>\<open>OverflowError\<close>, and the handler of the method returns the error pair.
\<close>

theorem forecast_length_counterexample:
  "price_model_trained (train_models (sk_constant 5) (init (Stored three_rows) True))
   \<and> load_data (train_models (sk_constant 5) (init (Stored three_rows) True)) \<noteq> []
   \<and> predict_future_prices (sk_constant 5) 739924 100000
        (train_models (sk_constant 5) (init (Stored three_rows) True))
      = (None, Some ''Error generating price predictions: date value out of range'')"
proof -
  let ?st = "train_models (sk_constant 5) (init (Stored three_rows) True)"
  have l: "load_data ?st = three_rows"
    by (simp add: trained_fixture load_data_def)
  have t: "price_model_trained ?st" by (simp add: trained_fixture)
  have n: "three_rows \<noteq> []" by (simp add: three_rows_def)
  have last: "price_step (sk_constant 5) 739924 three_rows ?st 100000
                = Inl (OverflowError ''date value out of range'')"
    using fixture_price_step [of 100000] by (simp add: MAXORDINAL_def)
  have "collect (price_step (sk_constant 5) 739924 three_rows ?st) [1..100000]
          = Inl (OverflowError ''date value out of range'')"
  proof (rule collect_first_failure [where i = 100000])
    show "100000 \<in> set [1..100000]" by simp
    show "price_step (sk_constant 5) 739924 three_rows ?st 100000
            = Inl (OverflowError ''date value out of range'')" by (rule last)
    fix j :: int assume "j \<in> set [1..100000]"
    then have "1 \<le> j" "j \<le> 100000" by simp_all
    from fixture_price_step [OF this]
    show "price_step (sk_constant 5) 739924 three_rows ?st j
            = Inl (OverflowError ''date value out of range'')
          \<or> (\<exists>x. price_step (sk_constant 5) 739924 three_rows ?st j = Inr x)"
      by (cases "739924 + j * 30 \<le> MAXORDINAL") simp_all
  qed
  then have "predict_future_prices (sk_constant 5) 739924 100000 ?st
      = (None, Some ''Error generating price predictions: date value out of range'')"
    using t n
    by (simp add: predict_future_prices_def prices_body_def and_then_def Let_def l
        recent_three_rows)
  with t l n show ?thesis by simp
qed

end
